theory Spec2Isabelle
  imports Complex_Main
begin

section \<open>Python values, exceptions and the runtime's formatting functions\<close>

text \<open>
  The pipeline is Python over pandas. Exceptions are values: every function of the source
  that can raise returns \<open>exn + 'a\<close>, with \<open>Inl\<close> the exception. The classes of
  \<^verbatim>\<open>src/utils/exceptions.py\<close> and the built-in ones the code raises or catches are the
  constructors; the argument is the message, \<^verbatim>\<open>str(e)\<close>.
\<close>

datatype exn =
    ValueError string
  | TypeError string
  | AttributeError string
  | PrawcoreException string
  | OtherException string
  | RedditPipelineException string
  | RedditAPIException string
  | DataValidationException string
  | ProcessingException string

fun str_exn :: "exn \<Rightarrow> string" where
  "str_exn (ValueError m) = m"
| "str_exn (TypeError m) = m"
| "str_exn (AttributeError m) = m"
| "str_exn (PrawcoreException m) = m"
| "str_exn (OtherException m) = m"
| "str_exn (RedditPipelineException m) = m"
| "str_exn (RedditAPIException m) = m"
| "str_exn (DataValidationException m) = m"
| "str_exn (ProcessingException m) = m"

fun is_PrawcoreException :: "exn \<Rightarrow> bool" where
  "is_PrawcoreException (PrawcoreException m) = True"
| "is_PrawcoreException e = False"

fun is_ValueError :: "exn \<Rightarrow> bool" where
  "is_ValueError (ValueError m) = True"
| "is_ValueError e = False"

fun is_RedditAPIException :: "exn \<Rightarrow> bool" where
  "is_RedditAPIException (RedditAPIException m) = True"
| "is_RedditAPIException e = False"

text \<open>
  A scalar as it sits in a Python dict or in a cell of a DataFrame. \<open>CNone\<close> is Python's
  \<^verbatim>\<open>None\<close>, \<open>CNaN\<close> the float \<^verbatim>\<open>nan\<close>, \<open>CNaT\<close> pandas' missing timestamp. A finite
  float is the rational it denotes. A timestamp is its number of seconds since the epoch, a date its
  number of days since the epoch. \<open>CObj s\<close> is any other object (a praw \<^verbatim>\<open>Redditor\<close> or
  \<^verbatim>\<open>Subreddit\<close>), known by its string form \<open>s\<close>.
\<close>

datatype cell =
    CNone
  | CNaN
  | CNaT
  | CBool bool
  | CInt int
  | CFloat rat
  | CStr string
  | CTime rat
  | CDate int
  | CObj string

text \<open>
  Formatting and parsing functions of the Python runtime that the source calls and that are
  not modelled here are taken as a parameter \<open>L\<close>: \<^verbatim>\<open>str\<close> of a float, the format
  \<^verbatim>\<open>{:.2f}\<close>, \<^verbatim>\<open>repr\<close> of a string, \<^verbatim>\<open>int\<close> of a string, the parsing of a string by
  \<^verbatim>\<open>pd.to_numeric\<close>, \<^verbatim>\<open>str\<close> and \<^verbatim>\<open>strftime\<close> of a timestamp or date, and the text of the
  \<^verbatim>\<open>TypeError\<close> of an ordering comparison of a column (its dtype name and cells) with a
  number.
\<close>

record runtime =
  float_str :: "rat \<Rightarrow> string"
  fmt_2f :: "rat \<Rightarrow> string"
  str_repr :: "string \<Rightarrow> string"
  int_of_str :: "string \<Rightarrow> int option"
  numeric_of_str :: "string \<Rightarrow> cell"
  time_str :: "rat \<Rightarrow> string"
  date_str :: "int \<Rightarrow> string"
  strftime :: "rat \<Rightarrow> string"
  cmp_error_text :: "string \<Rightarrow> cell list \<Rightarrow> string"

fun digit_char :: "nat \<Rightarrow> char" where
  "digit_char n = char_of (48 + n)"

function show_nat :: "nat \<Rightarrow> string" where
  "show_nat n = (if n < 10 then [digit_char n] else show_nat (n div 10) @ [digit_char (n mod 10)])"
  by pat_completeness auto
termination
  by (relation "measure id") auto

declare show_nat.simps [simp del]

definition show_int :: "int \<Rightarrow> string" where
  "show_int i = (if i < 0 then CHR ''-'' # show_nat (nat (- i)) else show_nat (nat i))"

text \<open>\<^verbatim>\<open>str(v)\<close>.\<close>

fun py_str :: "runtime \<Rightarrow> cell \<Rightarrow> string" where
  "py_str L CNone = ''None''"
| "py_str L CNaN = ''nan''"
| "py_str L CNaT = ''NaT''"
| "py_str L (CBool b) = (if b then ''True'' else ''False'')"
| "py_str L (CInt i) = show_int i"
| "py_str L (CFloat r) = float_str L r"
| "py_str L (CStr s) = s"
| "py_str L (CTime t) = time_str L t"
| "py_str L (CDate d) = date_str L d"
| "py_str L (CObj s) = s"

text \<open>\<^verbatim>\<open>bool(v)\<close>: Python truthiness. \<^verbatim>\<open>None\<close>, zero and the empty string are false;
  \<^verbatim>\<open>nan\<close> is a non-zero float, so it is true.\<close>

fun py_bool :: "cell \<Rightarrow> bool" where
  "py_bool CNone = False"
| "py_bool CNaN = True"
| "py_bool CNaT = True"
| "py_bool (CBool b) = b"
| "py_bool (CInt i) = (i \<noteq> 0)"
| "py_bool (CFloat r) = (r \<noteq> 0)"
| "py_bool (CStr s) = (s \<noteq> [])"
| "py_bool (CTime t) = True"
| "py_bool (CDate d) = True"
| "py_bool (CObj s) = True"

text \<open>\<^verbatim>\<open>int(v)\<close>: truncation toward zero on a float; it raises on \<^verbatim>\<open>nan\<close>, on a string
  that is no integer literal and on an object without \<^verbatim>\<open>__int__\<close>.\<close>

definition trunc :: "rat \<Rightarrow> int" where
  "trunc r = (if r < 0 then - \<lfloor>- r\<rfloor> else \<lfloor>r\<rfloor>)"

fun py_int :: "runtime \<Rightarrow> cell \<Rightarrow> exn + int" where
  "py_int L (CBool b) = Inr (if b then 1 else 0)"
| "py_int L (CInt i) = Inr i"
| "py_int L (CFloat r) = Inr (trunc r)"
| "py_int L (CStr s) =
     (case int_of_str L s of
        None \<Rightarrow> Inl (ValueError (''invalid literal for int() with base 10: '' @ str_repr L s))
      | Some i \<Rightarrow> Inr i)"
| "py_int L CNaN = Inl (ValueError ''cannot convert float NaN to integer'')"
| "py_int L v = Inl (TypeError ''int() argument must be a string, a bytes-like object or a real number'')"

subsection \<open>Binary floating point\<close>

text \<open>
  A Python float is an IEEE 754 binary64 number; one that is finite is a rational.
  \<open>float64 r\<close> is the float nearest to \<open>r\<close>, ties going to the even significand: it is
  what a correctly rounded operation returns whose exact result is \<open>r\<close>, so that the
  product of two floats \<open>a\<close> and \<open>b\<close> is \<open>float64 (a * b)\<close>, their quotient
  \<open>float64 (a / b)\<close>, and the float of an integer \<open>n\<close> is \<open>float64 (of_int n)\<close>. The
  exponent is not bounded here: the quantities of this program (counts of rows, their
  quotients, percentages) are far from overflow and from the subnormal numbers.
\<close>

definition pow2 :: "int \<Rightarrow> rat" where
  "pow2 e = (if e \<ge> 0 then 2 ^ nat e else 1 / 2 ^ nat (- e))"

function log2_down :: "rat \<Rightarrow> int" where
  "log2_down r = (if r \<ge> 2 then log2_down (r / 2) + 1 else 0)"
  by pat_completeness auto
termination
proof (relation "measure (\<lambda>r. nat \<lfloor>r\<rfloor>)")
  show "wf (measure (\<lambda>r :: rat. nat \<lfloor>r\<rfloor>))" by simp
next
  fix r :: rat
  assume "2 \<le> r"
  then have "\<lfloor>r / 2\<rfloor> < \<lfloor>r\<rfloor>" and "0 < \<lfloor>r\<rfloor>" by linarith+
  then show "(r / 2, r) \<in> measure (\<lambda>r. nat \<lfloor>r\<rfloor>)" by simp
qed

function log2_up :: "rat \<Rightarrow> int" where
  "log2_up r = (if 0 < r \<and> r < 1 then log2_up (r * 2) - 1 else 0)"
  by pat_completeness auto
termination
proof (relation "measure (\<lambda>r. nat \<lceil>1 / r\<rceil>)")
  show "wf (measure (\<lambda>r :: rat. nat \<lceil>1 / r\<rceil>))" by simp
next
  fix r :: rat
  assume a: "0 < r \<and> r < 1"
  then have x: "1 < 1 / r" by simp
  then have n: "2 \<le> \<lceil>1 / r\<rceil>" by linarith
  define c where "c = \<lceil>1 / r\<rceil>"
  define d where "d = \<lceil>1 / (r * 2)\<rceil>"
  have c2: "2 \<le> c" using n unfolding c_def .
  have "1 / r \<le> of_int c" unfolding c_def by (rule le_of_int_ceiling)
  moreover have "(2 :: rat) \<le> of_int c" using c2 by simp
  ultimately have "1 / r / 2 \<le> of_int (c - 1)" by simp
  moreover have "1 / (r * 2) = 1 / r / 2" by simp
  ultimately have "1 / (r * 2) \<le> of_int (c - 1)" by (simp only:)
  then have "d \<le> c - 1" unfolding d_def by (simp only: ceiling_le_iff)
  with c2 have "nat d < nat c" by (simp add: zless_nat_conj)
  then show "(r * 2, r) \<in> measure (\<lambda>r. nat \<lceil>1 / r\<rceil>)"
    unfolding c_def d_def by simp
qed

declare log2_down.simps [simp del] log2_up.simps [simp del]

text \<open>For a positive \<open>r\<close>, the integer \<open>e\<close> with \<open>2\<^sup>e \<le> r < 2\<^sup>e\<^sup>+\<^sup>1\<close>.\<close>

definition exponent :: "rat \<Rightarrow> int" where
  "exponent r = (if r < 1 then log2_up r else log2_down r)"

definition round_half_even :: "rat \<Rightarrow> int" where
  "round_half_even q =
     (let f = \<lfloor>q\<rfloor>; d = q - of_int f
      in if d < 1 / 2 then f else if d > 1 / 2 then f + 1 else if even f then f else f + 1)"

text \<open>The significand has 53 bits.\<close>

definition float64 :: "rat \<Rightarrow> rat" where
  "float64 r =
     (if r = 0 then 0
      else (let ulp = pow2 (exponent \<bar>r\<bar> - 52)
            in sgn r * of_int (round_half_even (\<bar>r\<bar> / ulp)) * ulp))"

section \<open>Source client: \<^verbatim>\<open>src/ingestion/reddit_extractor.py\<close>\<close>

definition POST_FIELDS :: "string list" where
  "POST_FIELDS =
     [''id'', ''subreddit'', ''title'', ''selftext'', ''score'', ''num_comments'', ''author'',
      ''created_utc'', ''upvote_ratio'', ''url'', ''permalink'', ''is_self'', ''over_18'',
      ''stickied'', ''distinguished'']"

text \<open>
  A praw submission is read through \<^verbatim>\<open>getattr(post, field, None)\<close> only. Reading an
  attribute gives a value, or finds no such attribute (\<^verbatim>\<open>AttributeError\<close>, which
  \<^verbatim>\<open>getattr\<close> with a default turns into the default), or raises something else (praw
  loads a submission lazily, so an attribute access can fail with a network error).
\<close>

datatype attr = Value cell | NoAttribute | Raises exn

type_synonym submission = "string \<Rightarrow> attr"

definition getattr :: "submission \<Rightarrow> string \<Rightarrow> cell \<Rightarrow> exn + cell" where
  "getattr post field dflt =
     (case post field of Value v \<Rightarrow> Inr v | NoAttribute \<Rightarrow> Inr dflt | Raises e \<Rightarrow> Inl e)"

text \<open>The body of the \<^verbatim>\<open>try\<close> of \<^verbatim>\<open>_extract_post_fields\<close>, for one field: the value that
  is stored under the field, or the exception that leaves the \<^verbatim>\<open>try\<close>.\<close>

definition extract_field :: "runtime \<Rightarrow> submission \<Rightarrow> string \<Rightarrow> exn + cell" where
  "extract_field L post field =
     (case getattr post field CNone of
        Inl e \<Rightarrow> Inl e
      | Inr v \<Rightarrow>
          if field = ''author'' \<and> py_bool v then Inr (CStr (py_str L v))
          else if field = ''created_utc'' then
            (if py_bool v then (case py_int L v of Inl e \<Rightarrow> Inl e | Inr i \<Rightarrow> Inr (CInt i))
             else Inr CNone)
          else Inr v)"

text \<open>A post dictionary, in insertion order. The \<^verbatim>\<open>except\<close> stores \<^verbatim>\<open>None\<close>.\<close>

type_synonym post_dict = "(string \<times> cell) list"

definition extract_post_fields :: "runtime \<Rightarrow> submission \<Rightarrow> post_dict" where
  "extract_post_fields L post =
     map (\<lambda>field. (field, case extract_field L post field of Inl e \<Rightarrow> CNone | Inr v \<Rightarrow> v))
       POST_FIELDS"

text \<open>
  The Reddit client. \<^verbatim>\<open>praw.Reddit(...)\<close> builds the client or raises,
  \<^verbatim>\<open>reddit.user.me()\<close> tests it, \<^verbatim>\<open>reddit.subreddit(name)\<close> gives a handle or raises;
  each of the four listing methods of a handle gives a lazy listing, which yields
  submissions when it is iterated and may raise in the middle of the iteration. A listing
  is the submissions it yields and the exception that ends it, if any. The calls made to
  the client, and the pauses, are logged, so that what happened before a failure can be
  stated.
\<close>

datatype sort_method = Top | Hot | New | Rising

datatype event =
    MakeClient
  | UserMe
  | SubredditCall string
  | ListingCall string sort_method
  | FetchItem string
  | Sleep rat

record reddit_client =
  make_client :: "exn option"
  user_me :: "exn option"
  subreddit_of :: "string \<Rightarrow> exn option"
  listing :: "string \<Rightarrow> sort_method \<Rightarrow> string \<Rightarrow> int option \<Rightarrow> submission list \<times> exn option"

text \<open>\<^verbatim>\<open>_connect\<close>: any exception becomes a \<^verbatim>\<open>RedditAPIException\<close>. The second component
  says whether \<^verbatim>\<open>self.reddit\<close> has been assigned, the third is the log.\<close>

definition connect_client :: "reddit_client \<Rightarrow> exn option \<times> bool \<times> event list" where
  "connect_client api =
     (case make_client api of
        Some e \<Rightarrow>
          (Some (RedditAPIException (''Reddit API connection failed: '' @ str_exn e)), False,
           [MakeClient])
      | None \<Rightarrow>
          (case user_me api of
             Some e \<Rightarrow>
               (Some (RedditAPIException (''Reddit API connection failed: '' @ str_exn e)), True,
                [MakeClient, UserMe])
           | None \<Rightarrow> (None, True, [MakeClient, UserMe])))"

text \<open>The two \<^verbatim>\<open>except\<close> clauses that close \<^verbatim>\<open>extract_posts\<close>.\<close>

definition wrap_extraction_error :: "exn \<Rightarrow> exn" where
  "wrap_extraction_error e =
     (if is_PrawcoreException e then RedditAPIException (''Reddit API error: '' @ str_exn e)
      else RedditAPIException (''Post extraction failed: '' @ str_exn e))"

text \<open>The \<^verbatim>\<open>if\<close>/\<^verbatim>\<open>elif\<close> chain on \<^verbatim>\<open>sort\<close>.\<close>

definition select_sort :: "string \<Rightarrow> exn + sort_method" where
  "select_sort sort_name =
     (if sort_name = ''top'' then Inr Top
      else if sort_name = ''hot'' then Inr Hot
      else if sort_name = ''new'' then Inr New
      else if sort_name = ''rising'' then Inr Rising
      else Inl (ValueError (''Invalid sort method: '' @ sort_name)))"

text \<open>
  The \<^verbatim>\<open>try\<close> block of \<^verbatim>\<open>extract_posts\<close>, with its two \<^verbatim>\<open>except\<close> clauses. The loop over
  the listing calls \<^verbatim>\<open>_extract_post_fields\<close>, which returns a dictionary for every
  submission, so the \<^verbatim>\<open>except\<close> inside the loop has nothing to catch.
\<close>

definition extract_posts_try ::
  "runtime \<Rightarrow> reddit_client \<Rightarrow> string \<Rightarrow> string \<Rightarrow> int option \<Rightarrow> string \<Rightarrow>
   (exn + post_dict list) \<times> event list" where
  "extract_posts_try L api subreddit time_filter limit sort_name =
     (case subreddit_of api subreddit of
        Some e \<Rightarrow> (Inl (wrap_extraction_error e), [SubredditCall subreddit])
      | None \<Rightarrow>
          (case select_sort sort_name of
             Inl e \<Rightarrow> (Inl (wrap_extraction_error e), [SubredditCall subreddit])
           | Inr m \<Rightarrow>
               (let (posts, failure) = listing api subreddit m time_filter limit;
                    calls = [SubredditCall subreddit, ListingCall subreddit m]
                              @ map (\<lambda>p. FetchItem subreddit) posts
                in case failure of
                     Some e \<Rightarrow> (Inl (wrap_extraction_error e), calls)
                   | None \<Rightarrow> (Inr (map (extract_post_fields L) posts), calls))))"

text \<open>
  \<^verbatim>\<open>extract_posts\<close>. \<open>has_client\<close> is \<^verbatim>\<open>bool(self.reddit)\<close>; \<^verbatim>\<open>_connect\<close> is called
  outside the \<^verbatim>\<open>try\<close>, so its exception is not wrapped again. The result comes with the
  new value of \<open>has_client\<close> and the log.
\<close>

definition extract_posts ::
  "runtime \<Rightarrow> reddit_client \<Rightarrow> bool \<Rightarrow> string \<Rightarrow> string \<Rightarrow> int option \<Rightarrow> string \<Rightarrow>
   (exn + post_dict list) \<times> bool \<times> event list" where
  "extract_posts L api has_client subreddit time_filter limit sort_name =
     (if has_client then
        (let (r, calls) = extract_posts_try L api subreddit time_filter limit sort_name
         in (r, True, calls))
      else
        (case connect_client api of
           (Some e, assigned, calls0) \<Rightarrow> (Inl e, assigned, calls0)
         | (None, assigned, calls0) \<Rightarrow>
             (let (r, calls) = extract_posts_try L api subreddit time_filter limit sort_name
              in (r, assigned, calls0 @ calls))))"

section \<open>DataFrames\<close>

text \<open>
  A DataFrame is its number of rows and its columns in order, each with a name, a dtype
  and one cell per row. The dtype is kept beside the cells because the validator asks for
  it (\<^verbatim>\<open>is_string_dtype\<close>, \<^verbatim>\<open>is_numeric_dtype\<close>, \<^verbatim>\<open>is_datetime64_any_dtype\<close>).
\<close>

datatype dtype = ObjectT | Int64T | Float64T | BoolT | DatetimeT | CategoryT

record column =
  dtype :: dtype
  cells :: "cell list"

record frame =
  nrows :: nat
  cols :: "(string \<times> column) list"

definition columns :: "frame \<Rightarrow> string list" where
  "columns df = map fst (cols df)"

text \<open>\<^verbatim>\<open>df[name]\<close>, for a name that is in \<^verbatim>\<open>df.columns\<close>.\<close>

definition col :: "frame \<Rightarrow> string \<Rightarrow> column" where
  "col df name = (case map_of (cols df) name of Some c \<Rightarrow> c | None \<Rightarrow> \<lparr>dtype = ObjectT, cells = []\<rparr>)"

text \<open>\<^verbatim>\<open>df.empty\<close>: one of the two axes has length 0.\<close>

definition empty_frame :: "frame \<Rightarrow> bool" where
  "empty_frame df = (nrows df = 0 \<or> cols df = [])"

text \<open>\<^verbatim>\<open>pd.DataFrame()\<close>.\<close>

definition DataFrame0 :: frame where
  "DataFrame0 = \<lparr>nrows = 0, cols = []\<rparr>"

text \<open>Every column has one cell per row, and no name occurs twice.\<close>

definition wf_frame :: "frame \<Rightarrow> bool" where
  "wf_frame df = (list_all (\<lambda>(n, c). length (cells c) = nrows df) (cols df) \<and> distinct (columns df))"

fun is_null :: "cell \<Rightarrow> bool" where
  "is_null CNone = True"
| "is_null CNaN = True"
| "is_null CNaT = True"
| "is_null v = False"

fun is_number :: "cell \<Rightarrow> bool" where
  "is_number (CInt i) = True"
| "is_number (CFloat r) = True"
| "is_number v = False"

fun is_CBool :: "cell \<Rightarrow> bool" where
  "is_CBool (CBool b) = True"
| "is_CBool v = False"

fun is_CInt :: "cell \<Rightarrow> bool" where
  "is_CInt (CInt i) = True"
| "is_CInt v = False"

fun to_float :: "cell \<Rightarrow> cell" where
  "to_float (CInt i) = CFloat (of_int i)"
| "to_float (CFloat r) = CFloat r"
| "to_float v = CNaN"

text \<open>
  Equality of values as pandas' hash tables see it, in \<^verbatim>\<open>duplicated\<close>,
  \<^verbatim>\<open>drop_duplicates\<close> and \<^verbatim>\<open>value_counts\<close>: it is Python's \<^verbatim>\<open>==\<close>, under which a
  boolean, an integer and a float are equal when they denote the same number
  (\<^verbatim>\<open>1 == 1.0 == True\<close>), and every \<^verbatim>\<open>nan\<close> is one value. \<open>py_key\<close> maps equal values, and
  only them, to the same cell.
\<close>

fun py_key :: "cell \<Rightarrow> cell" where
  "py_key (CBool b) = CFloat (if b then 1 else 0)"
| "py_key (CInt i) = CFloat (of_int i)"
| "py_key v = v"

text \<open>\<^verbatim>\<open>series.duplicated()\<close> over the keys of the values: the rows whose value has
  occurred above.\<close>

fun duplicated :: "'a list \<Rightarrow> 'a list \<Rightarrow> bool list" where
  "duplicated seen [] = []"
| "duplicated seen (v # vs) = (v \<in> set seen) # duplicated (v # seen) vs"

definition count_true :: "bool list \<Rightarrow> nat" where
  "count_true bs = length (filter (\<lambda>b. b) bs)"

text \<open>The elements of a list at the places where the mask is true.\<close>

definition select :: "bool list \<Rightarrow> 'a list \<Rightarrow> 'a list" where
  "select keep xs = map snd (filter fst (zip keep xs))"

text \<open>
  The dtype pandas infers for a column built from Python scalars: all booleans give
  \<^verbatim>\<open>bool\<close>, all integers \<^verbatim>\<open>int64\<close>, numbers with missing values \<^verbatim>\<open>float64\<close> (the
  missing values become \<^verbatim>\<open>nan\<close>), anything else \<^verbatim>\<open>object\<close> with the values as they are.
\<close>

definition infer_column :: "cell list \<Rightarrow> column" where
  "infer_column vs =
     (if vs \<noteq> [] \<and> list_all is_CBool vs then \<lparr>dtype = BoolT, cells = vs\<rparr>
      else if vs \<noteq> [] \<and> list_all is_CInt vs then \<lparr>dtype = Int64T, cells = vs\<rparr>
      else if list_ex is_number vs \<and> list_all (\<lambda>v. is_number v \<or> is_null v) vs
        then \<lparr>dtype = Float64T, cells = map to_float vs\<rparr>
      else \<lparr>dtype = ObjectT, cells = vs\<rparr>)"

text \<open>\<^verbatim>\<open>pd.DataFrame(records)\<close> for a list of dictionaries: the columns are the keys in
  the order they are first met; a key a dictionary lacks gives \<^verbatim>\<open>nan\<close>.\<close>

fun first_seen :: "string list \<Rightarrow> string list \<Rightarrow> string list" where
  "first_seen seen [] = []"
| "first_seen seen (k # ks) = (if k \<in> set seen then first_seen seen ks else k # first_seen (k # seen) ks)"

definition DataFrame_of :: "post_dict list \<Rightarrow> frame" where
  "DataFrame_of records =
     \<lparr>nrows = length records,
      cols = map (\<lambda>k. (k, infer_column
                            (map (\<lambda>d. case map_of d k of Some v \<Rightarrow> v | None \<Rightarrow> CNaN) records)))
               (first_seen [] (concat (map (map fst) records)))\<rparr>"

section \<open>Batch aggregator: \<^verbatim>\<open>extract_posts_batch\<close>\<close>

text \<open>The loop over the subreddits: the state is \<^verbatim>\<open>all_posts\<close>, whether the client is
  assigned, and the log. A failed subreddit is logged and skipped.\<close>

fun extract_loop ::
  "runtime \<Rightarrow> reddit_client \<Rightarrow> string \<Rightarrow> int option \<Rightarrow> string \<Rightarrow> rat \<Rightarrow>
   string list \<Rightarrow> post_dict list \<times> bool \<times> event list \<Rightarrow> post_dict list \<times> bool \<times> event list" where
  "extract_loop L api time_filter limit sort_name delay [] st = st"
| "extract_loop L api time_filter limit sort_name delay (subreddit # rest) (all_posts, has_client, evs) =
     (case extract_posts L api has_client subreddit time_filter limit sort_name of
        (Inr posts, has_client', calls) \<Rightarrow>
          extract_loop L api time_filter limit sort_name delay rest
            (all_posts @ posts, has_client',
             evs @ calls @ (if delay > 0 then [Sleep delay] else []))
      | (Inl e, has_client', calls) \<Rightarrow>
          extract_loop L api time_filter limit sort_name delay rest
            (all_posts, has_client', evs @ calls))"

definition extract_posts_batch ::
  "runtime \<Rightarrow> reddit_client \<Rightarrow> bool \<Rightarrow> string list \<Rightarrow> string \<Rightarrow> int option \<Rightarrow> string \<Rightarrow> rat \<Rightarrow>
   frame \<times> bool \<times> event list" where
  "extract_posts_batch L api has_client subreddits time_filter limit_per_subreddit sort_name delay =
     (case extract_loop L api time_filter limit_per_subreddit sort_name delay subreddits
             ([], has_client, []) of
        (all_posts, has_client', evs) \<Rightarrow>
          (if all_posts = [] then DataFrame0 else DataFrame_of all_posts, has_client', evs))"

section \<open>Validator: \<^verbatim>\<open>src/processing/data_validator.py\<close>\<close>

text \<open>
  An error or warning of the validator is one of its message templates with the values
  that fill it; \<open>message_text\<close> gives the string the source builds.
\<close>

datatype message =
    DataFrameEmpty
  | MissingRequiredColumns "string list"
  | UnexpectedColumns "string list"
  | IdShouldBeString
  | ScoreShouldBeNumeric
  | TooFewRows nat int
  | DuplicateIds nat
  | NullPercentageError string rat rat
  | NullPercentageWarning string rat
  | EmptyTitles nat
  | HighNegativeScores nat
  | NegativeComments nat
  | InvalidRatios nat
  | FutureDates nat
  | NoSubreddits
  | OneSubreddit
  | MissingColumn string
  | WrongType string string string

fun join :: "string \<Rightarrow> string list \<Rightarrow> string" where
  "join sep [] = []"
| "join sep [x] = x"
| "join sep (x # y # ys) = x @ sep @ join sep (y # ys)"

text \<open>\<^verbatim>\<open>str\<close> of a list of strings.\<close>

definition list_repr :: "runtime \<Rightarrow> string list \<Rightarrow> string" where
  "list_repr L xs = ''['' @ join '', '' (map (str_repr L) xs) @ '']''"

text \<open>A name between single quotes, as the templates write it.\<close>

definition quoted :: "string \<Rightarrow> string" where
  "quoted s = [CHR 0x27] @ s @ [CHR 0x27]"

fun message_text :: "runtime \<Rightarrow> message \<Rightarrow> string" where
  "message_text L DataFrameEmpty = ''DataFrame is empty''"
| "message_text L (MissingRequiredColumns cs) = ''Missing required columns: '' @ list_repr L cs"
| "message_text L (UnexpectedColumns cs) = ''Unexpected columns found: '' @ list_repr L cs"
| "message_text L IdShouldBeString = ''Column '' @ quoted ''id'' @ '' should be string type''"
| "message_text L ScoreShouldBeNumeric = ''Column '' @ quoted ''score'' @ '' should be numeric''"
| "message_text L (TooFewRows n m) =
     ''DataFrame has '' @ show_nat n @ '' rows, minimum required is '' @ show_int m"
| "message_text L (DuplicateIds n) = ''Found '' @ show_nat n @ '' duplicate IDs''"
| "message_text L (NullPercentageError c pct mx) =
     ''Column '' @ quoted c @ '' has '' @ fmt_2f L pct @ ''% null values (max allowed: ''
       @ float_str L mx @ ''%)''"
| "message_text L (NullPercentageWarning c pct) =
     ''Column '' @ quoted c @ '' has '' @ fmt_2f L pct @ ''% null values''"
| "message_text L (EmptyTitles n) = ''Found '' @ show_nat n @ '' posts with empty titles''"
| "message_text L (HighNegativeScores n) = ''High percentage of negative scores: '' @ show_nat n"
| "message_text L (NegativeComments n) =
     ''Found '' @ show_nat n @ '' posts with negative comment counts''"
| "message_text L (InvalidRatios n) = ''Found '' @ show_nat n @ '' posts with invalid upvote ratios''"
| "message_text L (FutureDates n) = ''Found '' @ show_nat n @ '' posts with future dates''"
| "message_text L NoSubreddits = ''No subreddits found in data''"
| "message_text L OneSubreddit = ''Data contains posts from only one subreddit''"
| "message_text L (MissingColumn c) = ''Missing column: '' @ c"
| "message_text L (WrongType c actual expected) =
     ''Column '' @ quoted c @ '' has type '' @ actual @ '', expected '' @ expected"

text \<open>\<^verbatim>\<open>sub in s\<close> on strings.\<close>

definition contains :: "string \<Rightarrow> string \<Rightarrow> bool" where
  "contains s sub = list_ex (\<lambda>i. take (length sub) (drop i s) = sub) [0..<Suc (length s)]"

text \<open>The values of the \<^verbatim>\<open>stats\<close> dictionary, and the dictionary in insertion order.\<close>

datatype stat =
    StatInt int
  | StatPercentages "(string \<times> rat option) list"
  | StatRange string string
  | StatCounts "(cell \<times> nat) list"

type_synonym stats_dict = "(string \<times> stat) list"

fun dict_set :: "('k \<times> 'v) list \<Rightarrow> 'k \<Rightarrow> 'v \<Rightarrow> ('k \<times> 'v) list" where
  "dict_set [] k v = [(k, v)]"
| "dict_set ((k', v') # d) k v = (if k' = k then (k, v) # d else (k', v') # dict_set d k v)"

definition dict_update :: "('k \<times> 'v) list \<Rightarrow> ('k \<times> 'v) list \<Rightarrow> ('k \<times> 'v) list" where
  "dict_update d other = fold (\<lambda>(k, v) d'. dict_set d' k v) other d"

record validation_result =
  is_valid :: bool
  errors :: "message list"
  warnings :: "message list"
  stats :: stats_dict

record validator =
  min_rows :: int
  max_null_percentage :: rat
  require_unique_ids :: bool

definition REQUIRED_COLUMNS :: "string list" where
  "REQUIRED_COLUMNS = [''id'', ''title'', ''subreddit'']"

definition EXPECTED_COLUMNS :: "string list" where
  "EXPECTED_COLUMNS =
     [''id'', ''subreddit'', ''title'', ''selftext'', ''score'', ''num_comments'', ''author'',
      ''created_utc'', ''upvote_ratio'', ''url'', ''permalink'']"

fun is_CStr :: "cell \<Rightarrow> bool" where
  "is_CStr (CStr s) = True"
| "is_CStr v = False"

text \<open>The dtype tests of \<^verbatim>\<open>pd.api.types\<close> (pandas 2, which \<^verbatim>\<open>setup.py\<close> requires): an
  object column is a string column when all its elements are strings; booleans count as
  numeric.\<close>

definition is_string_dtype :: "column \<Rightarrow> bool" where
  "is_string_dtype c = (dtype c = ObjectT \<and> list_all is_CStr (cells c))"

definition is_numeric_dtype :: "column \<Rightarrow> bool" where
  "is_numeric_dtype c = (dtype c = Int64T \<or> dtype c = Float64T \<or> dtype c = BoolT)"

definition is_datetime64_any_dtype :: "column \<Rightarrow> bool" where
  "is_datetime64_any_dtype c = (dtype c = DatetimeT)"

fun dtype_str :: "dtype \<Rightarrow> string" where
  "dtype_str ObjectT = ''object''"
| "dtype_str Int64T = ''int64''"
| "dtype_str Float64T = ''float64''"
| "dtype_str BoolT = ''bool''"
| "dtype_str DatetimeT = ''datetime64[ns]''"
| "dtype_str CategoryT = ''category''"

subsection \<open>Structure tier\<close>

definition validate_structure :: "frame \<Rightarrow> message list \<times> message list \<times> stats_dict" where
  "validate_structure df =
     (if empty_frame df then ([DataFrameEmpty], [], [])
      else
        (let stats0 = [(''total_rows'', StatInt (int (nrows df))),
                       (''total_columns'', StatInt (int (length (columns df))))];
             missing_columns = filter (\<lambda>c. c \<notin> set (columns df)) REQUIRED_COLUMNS;
             errors1 = (if missing_columns \<noteq> [] then [MissingRequiredColumns missing_columns] else []);
             unexpected_columns = filter (\<lambda>c. c \<notin> set EXPECTED_COLUMNS) (columns df);
             warnings1 = (if unexpected_columns \<noteq> [] then [UnexpectedColumns unexpected_columns] else []);
             warnings2 = (if ''id'' \<in> set (columns df) \<and> \<not> is_string_dtype (col df ''id'')
                          then [IdShouldBeString] else []);
             errors2 = (if ''score'' \<in> set (columns df) \<and> \<not> is_numeric_dtype (col df ''score'')
                        then [ScoreShouldBeNumeric] else [])
         in (errors1 @ errors2, warnings1 @ warnings2, stats0)))"

subsection \<open>Quality tier\<close>

text \<open>
  \<^verbatim>\<open>df.isnull().sum() / len(df) * 100\<close> for one column: the count and the length become
  floats, and the division and the multiplication are float operations. With no rows the
  division is \<^verbatim>\<open>0 / 0\<close>, which pandas evaluates to \<^verbatim>\<open>nan\<close>: that is \<open>None\<close> here, and
  every comparison with it is false.
\<close>

definition null_percentage :: "frame \<Rightarrow> column \<Rightarrow> rat option" where
  "null_percentage df c =
     (if nrows df = 0 then None
      else Some (float64 (float64 (float64 (of_nat (length (filter is_null (cells c))))
                                     / float64 (of_nat (nrows df))) * 100)))"

definition null_percentages :: "frame \<Rightarrow> (string \<times> rat option) list" where
  "null_percentages df = map (\<lambda>(n, c). (n, null_percentage df c)) (cols df)"

text \<open>The body of the loop over \<^verbatim>\<open>null_percentages.items()\<close>: what one column adds to
  the errors and to the warnings. \<^verbatim>\<open>self.max_null_percentage / 2\<close> is a float division.\<close>

definition null_check :: "validator \<Rightarrow> string \<times> rat option \<Rightarrow> message list \<times> message list" where
  "null_check cfg item =
     (case item of
        (c, None) \<Rightarrow> ([], [])
      | (c, Some pct) \<Rightarrow>
          if pct > max_null_percentage cfg then
            ([NullPercentageError c pct (max_null_percentage cfg)], [])
          else if pct > float64 (max_null_percentage cfg / 2) then ([], [NullPercentageWarning c pct])
          else ([], []))"

text \<open>\<^verbatim>\<open>ch.isspace()\<close>, for the characters a \<open>char\<close> holds, those below U+0100: the
  controls 9 to 13 and 28 to 31, the space, U+0085 and the no-break space U+00A0.\<close>

definition py_isspace :: "char \<Rightarrow> bool" where
  "py_isspace ch = (of_char ch \<in> {9, 10, 11, 12, 13, 28, 29, 30, 31, 32, 133, 160 :: nat})"

text \<open>\<^verbatim>\<open>s.strip()\<close>.\<close>

definition strip :: "string \<Rightarrow> string" where
  "strip s = rev (dropWhile py_isspace (rev (dropWhile py_isspace s)))"

definition validate_quality ::
  "runtime \<Rightarrow> validator \<Rightarrow> frame \<Rightarrow> message list \<times> message list \<times> stats_dict" where
  "validate_quality L cfg df =
     (let errors1 = (if int (nrows df) < min_rows cfg then [TooFewRows (nrows df) (min_rows cfg)] else []);
          has_id = (''id'' \<in> set (columns df));
          duplicate_count = count_true (duplicated [] (map py_key (cells (col df ''id''))));
          stats1 = (if has_id then [(''duplicate_ids'', StatInt (int duplicate_count))] else []);
          errors2 = (if has_id \<and> duplicate_count > 0 \<and> require_unique_ids cfg
                     then [DuplicateIds duplicate_count] else []);
          warnings2 = (if has_id \<and> duplicate_count > 0 \<and> \<not> require_unique_ids cfg
                       then [DuplicateIds duplicate_count] else []);
          pcts = null_percentages df;
          stats2 = dict_set stats1 ''null_percentages'' (StatPercentages pcts);
          checks = map (null_check cfg) pcts;
          errors3 = concat (map fst checks);
          warnings3 = concat (map snd checks);
          empty_titles = length (filter (\<lambda>v. strip (py_str L v) = []) (cells (col df ''title'')));
          errors4 = (if ''title'' \<in> set (columns df) \<and> empty_titles > 0
                     then [EmptyTitles empty_titles] else [])
      in (errors1 @ errors2 @ errors3 @ errors4, warnings2 @ warnings3, stats2))"

subsection \<open>Business tier\<close>

text \<open>
  An ordering comparison of a column with a number, \<^verbatim>\<open>df[c] < 0\<close> or \<^verbatim>\<open>df[c] > 1\<close>. On a
  numeric column it is elementwise, and false on \<^verbatim>\<open>nan\<close>. On an object column pandas
  compares element by element: a missing value gives false, a number is compared, and
  anything else (a string, an object) raises Python's \<^verbatim>\<open>TypeError\<close>. A datetime or a
  categorical column cannot be compared with a number at all.
\<close>

fun cmp_cell :: "(rat \<Rightarrow> bool) \<Rightarrow> cell \<Rightarrow> bool option" where
  "cmp_cell p (CInt i) = Some (p (of_int i))"
| "cmp_cell p (CFloat r) = Some (p r)"
| "cmp_cell p (CBool b) = Some (p (if b then 1 else 0))"
| "cmp_cell p CNone = Some False"
| "cmp_cell p CNaN = Some False"
| "cmp_cell p CNaT = Some False"
| "cmp_cell p v = None"

fun cmp_cells :: "(rat \<Rightarrow> bool) \<Rightarrow> cell list \<Rightarrow> bool list option" where
  "cmp_cells p [] = Some []"
| "cmp_cells p (v # vs) =
     (case cmp_cell p v of
        None \<Rightarrow> None
      | Some b \<Rightarrow> (case cmp_cells p vs of None \<Rightarrow> None | Some bs \<Rightarrow> Some (b # bs)))"

definition compare_column :: "runtime \<Rightarrow> (rat \<Rightarrow> bool) \<Rightarrow> column \<Rightarrow> exn + bool list" where
  "compare_column L p c =
     (if dtype c = DatetimeT \<or> dtype c = CategoryT then Inl (TypeError (cmp_error_text L (dtype_str (dtype c)) (cells c)))
      else case cmp_cells p (cells c) of
             None \<Rightarrow> Inl (TypeError (cmp_error_text L (dtype_str (dtype c)) (cells c)))
           | Some bs \<Rightarrow> Inr bs)"

text \<open>\<^verbatim>\<open>(df['created_utc'] > pd.Timestamp.now()).sum()\<close> on a datetime column: a missing
  timestamp is not greater than anything.\<close>

fun is_after :: "rat \<Rightarrow> cell \<Rightarrow> bool" where
  "is_after now (CTime t) = (t > now)"
| "is_after now v = False"

fun times_of :: "cell list \<Rightarrow> rat list" where
  "times_of [] = []"
| "times_of (CTime t # vs) = t # times_of vs"
| "times_of (v # vs) = times_of vs"

text \<open>\<^verbatim>\<open>str(series.min())\<close> and \<^verbatim>\<open>str(series.max())\<close> of a datetime column: missing values are
  skipped, and with nothing left the result is \<^verbatim>\<open>NaT\<close>.\<close>

definition min_time_str :: "runtime \<Rightarrow> cell list \<Rightarrow> string" where
  "min_time_str L vs = (case times_of vs of [] \<Rightarrow> py_str L CNaT | t # ts \<Rightarrow> py_str L (CTime (fold min ts t)))"

definition max_time_str :: "runtime \<Rightarrow> cell list \<Rightarrow> string" where
  "max_time_str L vs = (case times_of vs of [] \<Rightarrow> py_str L CNaT | t # ts \<Rightarrow> py_str L (CTime (fold max ts t)))"

text \<open>\<^verbatim>\<open>series.value_counts().to_dict()\<close>: the distinct values that are not missing, each
  with the number of its occurrences.\<close>

definition value_counts :: "cell list \<Rightarrow> (cell \<times> nat) list" where
  "value_counts vs =
     (let present = filter (\<lambda>v. \<not> is_null v) vs;
          firsts = select (map Not (duplicated [] (map py_key present))) present
      in map (\<lambda>v. (v, length (filter (\<lambda>w. py_key w = py_key v) present))) firsts)"

text \<open>
  The tier reads the clock once, in \<^verbatim>\<open>pd.Timestamp.now()\<close>; the reading is the parameter
  \<open>now\<close>. The three comparisons on \<^verbatim>\<open>score\<close>, \<^verbatim>\<open>num_comments\<close> and \<^verbatim>\<open>upvote_ratio\<close> can
  raise; an exception leaves the tier at once. \<^verbatim>\<open>negative_scores > len(df) * 0.1\<close> is a
  comparison of floats, \<^verbatim>\<open>0.1\<close> being the float nearest to one tenth.
\<close>

definition business_score :: "runtime \<Rightarrow> frame \<Rightarrow> exn + message list \<times> stats_dict" where
  "business_score L df =
     (if ''score'' \<in> set (columns df) then
        (case compare_column L (\<lambda>x. x < 0) (col df ''score'') of
           Inl e \<Rightarrow> Inl e
         | Inr bs \<Rightarrow>
             (let negative_scores = count_true bs
              in Inr (if float64 (of_nat negative_scores)
                           > float64 (float64 (of_nat (nrows df)) * float64 (1 / 10))
                      then [HighNegativeScores negative_scores] else [],
                      [(''negative_scores'', StatInt (int negative_scores))])))
      else Inr ([], []))"

definition business_comments :: "runtime \<Rightarrow> frame \<Rightarrow> exn + message list" where
  "business_comments L df =
     (if ''num_comments'' \<in> set (columns df) then
        (case compare_column L (\<lambda>x. x < 0) (col df ''num_comments'') of
           Inl e \<Rightarrow> Inl e
         | Inr bs \<Rightarrow>
             (let negative_comments = count_true bs
              in Inr (if negative_comments > 0 then [NegativeComments negative_comments] else [])))
      else Inr [])"

definition business_ratio :: "runtime \<Rightarrow> frame \<Rightarrow> exn + message list" where
  "business_ratio L df =
     (if ''upvote_ratio'' \<in> set (columns df) then
        (case compare_column L (\<lambda>x. x < 0) (col df ''upvote_ratio'') of
           Inl e \<Rightarrow> Inl e
         | Inr lows \<Rightarrow>
             (case compare_column L (\<lambda>x. x > 1) (col df ''upvote_ratio'') of
                Inl e \<Rightarrow> Inl e
              | Inr highs \<Rightarrow>
                  (let invalid_ratios = count_true (map (\<lambda>(a, b). a \<or> b) (zip lows highs))
                   in Inr (if invalid_ratios > 0 then [InvalidRatios invalid_ratios] else []))))
      else Inr [])"

definition business_dates :: "runtime \<Rightarrow> rat \<Rightarrow> frame \<Rightarrow> message list \<times> stats_dict" where
  "business_dates L now df =
     (if ''created_utc'' \<in> set (columns df) \<and> is_datetime64_any_dtype (col df ''created_utc'') then
        (let vs = cells (col df ''created_utc'');
             future_dates = length (filter (is_after now) vs)
         in (if future_dates > 0 then [FutureDates future_dates] else [],
             [(''date_range'', StatRange (min_time_str L vs) (max_time_str L vs))]))
      else ([], []))"

definition business_subreddits :: "frame \<Rightarrow> message list \<times> message list \<times> stats_dict" where
  "business_subreddits df =
     (if ''subreddit'' \<in> set (columns df) then
        (let subreddit_counts = value_counts (cells (col df ''subreddit''))
         in (if length subreddit_counts = 0 then [NoSubreddits] else [],
             if length subreddit_counts = 1 then [OneSubreddit] else [],
             [(''subreddit_distribution'', StatCounts subreddit_counts)]))
      else ([], [], []))"

definition validate_business_rules ::
  "runtime \<Rightarrow> rat \<Rightarrow> frame \<Rightarrow> exn + message list \<times> message list \<times> stats_dict" where
  "validate_business_rules L now df =
     (case business_score L df of
        Inl e \<Rightarrow> Inl e
      | Inr (warnings1, stats1) \<Rightarrow>
          (case business_comments L df of
             Inl e \<Rightarrow> Inl e
           | Inr errors2 \<Rightarrow>
               (case business_ratio L df of
                  Inl e \<Rightarrow> Inl e
                | Inr errors3 \<Rightarrow>
                    (case business_dates L now df of
                       (errors4, stats4) \<Rightarrow>
                         (case business_subreddits df of
                            (errors5, warnings5, stats5) \<Rightarrow>
                              Inr (errors2 @ errors3 @ errors4 @ errors5,
                                   warnings1 @ warnings5,
                                   dict_update (dict_update stats1 stats4) stats5))))))"

subsection \<open>\<^verbatim>\<open>validate\<close> and \<^verbatim>\<open>validate_schema\<close>\<close>

text \<open>The three tiers run one after the other inside one \<^verbatim>\<open>try\<close>; any exception becomes a
  \<^verbatim>\<open>DataValidationException\<close>.\<close>

definition validate :: "runtime \<Rightarrow> validator \<Rightarrow> rat \<Rightarrow> frame \<Rightarrow> exn + validation_result" where
  "validate L cfg now df =
     (case validate_structure df of
        (structure_errors, structure_warnings, structure_stats) \<Rightarrow>
          (case validate_quality L cfg df of
             (quality_errors, quality_warnings, quality_stats) \<Rightarrow>
               (case validate_business_rules L now df of
                  Inl e \<Rightarrow> Inl (DataValidationException (''Validation failed: '' @ str_exn e))
                | Inr (business_errors, business_warnings, business_stats) \<Rightarrow>
                    (let errs = structure_errors @ quality_errors @ business_errors;
                         warns = structure_warnings @ quality_warnings @ business_warnings;
                         sts = dict_update (dict_update (dict_update [] structure_stats)
                                              quality_stats) business_stats
                     in Inr \<lparr>is_valid = (length errs = 0), errors = errs, warnings = warns,
                             stats = sts\<rparr>))))"



text \<open>The loop of \<^verbatim>\<open>validate_schema\<close> over the items of the expected schema, a dictionary
  from column names to dtype names.\<close>

fun schema_loop ::
  "frame \<Rightarrow> (string \<times> string) list \<Rightarrow> message list \<times> message list \<Rightarrow> message list \<times> message list" where
  "schema_loop df [] acc = acc"
| "schema_loop df ((c, expected_type) # rest) (errs, warns) =
     (if c \<notin> set (columns df) then schema_loop df rest (errs @ [MissingColumn c], warns)
      else
        (let actual_type = dtype_str (dtype (col df c))
         in if \<not> contains actual_type expected_type
            then schema_loop df rest (errs, warns @ [WrongType c actual_type expected_type])
            else schema_loop df rest (errs, warns)))"

definition validate_schema :: "frame \<Rightarrow> (string \<times> string) list \<Rightarrow> validation_result" where
  "validate_schema df expected_schema =
     (case schema_loop df expected_schema ([], []) of
        (errs, warns) \<Rightarrow>
          \<lparr>is_valid = (length errs = 0), errors = errs, warnings = warns, stats = []\<rparr>)"

section \<open>Transformer: \<^verbatim>\<open>src/processing/data_transformer.py\<close>\<close>

text \<open>
  The stages of the transformer. A pandas operation is modelled by the column or frame it
  returns, and by the exception it raises where the text columns are concerned: the
  \<^verbatim>\<open>.str\<close> accessor refuses a column that holds no strings, and a replacement by
  \<^verbatim>\<open>nan\<close> can turn an object column into a float column (pandas 2, which \<^verbatim>\<open>setup.py\<close>
  requires).
\<close>

text \<open>\<^verbatim>\<open>df[name] = series\<close>: an existing column is replaced in place, a new one is added at
  the end.\<close>

definition set_col :: "frame \<Rightarrow> string \<Rightarrow> column \<Rightarrow> frame" where
  "set_col df name c = df\<lparr>cols := dict_set (cols df) name c\<rparr>"

text \<open>\<^verbatim>\<open>df[mask]\<close>: the rows where the mask is true, in their order.\<close>

definition filter_rows :: "bool list \<Rightarrow> frame \<Rightarrow> frame" where
  "filter_rows keep df =
     \<lparr>nrows = count_true keep,
      cols = map (\<lambda>(n, c). (n, c\<lparr>cells := select keep (cells c)\<rparr>)) (cols df)\<rparr>"

text \<open>The loop \<^verbatim>\<open>for col in names: if col in df.columns: df[col] = f(df[col])\<close>, for an
  \<open>f\<close> that raises nothing and for one that may raise.\<close>

fun for_columns :: "(column \<Rightarrow> column) \<Rightarrow> string list \<Rightarrow> frame \<Rightarrow> frame" where
  "for_columns f [] df = df"
| "for_columns f (name # names) df =
     for_columns f names (if name \<in> set (columns df) then set_col df name (f (col df name)) else df)"

fun for_columns_try :: "(column \<Rightarrow> exn + column) \<Rightarrow> string list \<Rightarrow> frame \<Rightarrow> exn + frame" where
  "for_columns_try f [] df = Inr df"
| "for_columns_try f (name # names) df =
     (if name \<in> set (columns df) then
        (case f (col df name) of
           Inl e \<Rightarrow> Inl e
         | Inr c \<Rightarrow> for_columns_try f names (set_col df name c))
      else for_columns_try f names df)"

subsection \<open>Replacement by \<^verbatim>\<open>nan\<close> and the \<^verbatim>\<open>.str\<close> accessor\<close>

text \<open>
  After a replacement pandas converts an object column whose values have become all of
  one numeric kind: all booleans give \<^verbatim>\<open>bool\<close>, all integers \<^verbatim>\<open>int64\<close>, and floats (all
  \<^verbatim>\<open>nan\<close> included), with integers or \<^verbatim>\<open>None\<close> among them or not, give \<^verbatim>\<open>float64\<close>. Any
  other column stays an object column.
\<close>

fun is_float_like :: "cell \<Rightarrow> bool" where
  "is_float_like (CFloat r) = True"
| "is_float_like CNaN = True"
| "is_float_like v = False"

definition soft_convert :: "cell list \<Rightarrow> column" where
  "soft_convert vs =
     (if vs \<noteq> [] \<and> list_all is_CBool vs then \<lparr>dtype = BoolT, cells = vs\<rparr>
      else if vs \<noteq> [] \<and> list_all is_CInt vs then \<lparr>dtype = Int64T, cells = vs\<rparr>
      else if list_ex is_float_like vs \<and> list_all (\<lambda>v. is_number v \<or> v = CNaN \<or> v = CNone) vs
        then \<lparr>dtype = Float64T, cells = map to_float vs\<rparr>
      else \<lparr>dtype = ObjectT, cells = vs\<rparr>)"

text \<open>\<^verbatim>\<open>series.replace(x, np.nan)\<close> for the values \<open>x\<close> that \<open>hit\<close> accepts, all of them
  strings: a column that is no object column holds no string and stays as it is, and so
  does a column in which nothing is replaced.\<close>

definition replace_by_nan :: "(cell \<Rightarrow> bool) \<Rightarrow> column \<Rightarrow> column" where
  "replace_by_nan hit c =
     (if dtype c = ObjectT \<and> list_ex hit (cells c)
      then soft_convert (map (\<lambda>v. if hit v then CNaN else v) (cells c)) else c)"

text \<open>
  \<^verbatim>\<open>series.str\<close> is refused with an \<^verbatim>\<open>AttributeError\<close> unless the values are inferred to
  be strings, mixed, or empty: a column of a numeric, boolean or datetime dtype is
  refused, and so is an object column whose values, the missing ones apart, are all
  numbers, all booleans, all timestamps or all dates.
\<close>

fun is_CTime :: "cell \<Rightarrow> bool" where
  "is_CTime (CTime t) = True"
| "is_CTime v = False"

fun is_CDate :: "cell \<Rightarrow> bool" where
  "is_CDate (CDate d) = True"
| "is_CDate v = False"

definition has_str_accessor :: "column \<Rightarrow> bool" where
  "has_str_accessor c =
     ((dtype c = ObjectT \<or> dtype c = CategoryT) \<and>
      (let present = filter (\<lambda>v. \<not> is_null v) (cells c)
       in present = [] \<or>
          \<not> (list_all is_number present \<or> list_all is_CBool present \<or>
             list_all is_CTime present \<or> list_all is_CDate present)))"

definition str_accessor_error :: exn where
  "str_accessor_error = AttributeError ''Can only use .str accessor with string values!''"

subsection \<open>Type coercion\<close>

text \<open>\<^verbatim>\<open>series.astype(str).replace('nan', np.nan)\<close>.\<close>

definition astype_str :: "runtime \<Rightarrow> column \<Rightarrow> column" where
  "astype_str L c =
     replace_by_nan (\<lambda>v. v = CStr ''nan'')
       \<lparr>dtype = ObjectT, cells = map (\<lambda>v. CStr (py_str L v)) (cells c)\<rparr>"

text \<open>The dtype of a column of numbers: \<^verbatim>\<open>bool\<close> when all are booleans, \<^verbatim>\<open>int64\<close> when
  all are integers or booleans (a boolean then counts as 0 or 1), otherwise \<^verbatim>\<open>float64\<close>
  with \<^verbatim>\<open>nan\<close> for what is missing.\<close>

fun float_of_cell :: "cell \<Rightarrow> cell" where
  "float_of_cell (CInt i) = CFloat (of_int i)"
| "float_of_cell (CFloat r) = CFloat r"
| "float_of_cell (CBool b) = CFloat (if b then 1 else 0)"
| "float_of_cell v = CNaN"

fun as_number :: "cell \<Rightarrow> cell" where
  "as_number (CBool b) = CInt (if b then 1 else 0)"
| "as_number v = v"

definition numeric_column :: "cell list \<Rightarrow> column" where
  "numeric_column vs =
     (if vs \<noteq> [] \<and> list_all is_CBool vs then \<lparr>dtype = BoolT, cells = vs\<rparr>
      else if list_all (\<lambda>v. is_CInt v \<or> is_CBool v) vs
        then \<lparr>dtype = Int64T, cells = map as_number vs\<rparr>
      else \<lparr>dtype = Float64T, cells = map float_of_cell vs\<rparr>)"

text \<open>\<^verbatim>\<open>pd.to_numeric(series, errors='coerce')\<close>: a number stays, a string is parsed, and
  what is no number becomes \<^verbatim>\<open>nan\<close>.\<close>

fun to_numeric_cell :: "runtime \<Rightarrow> cell \<Rightarrow> cell" where
  "to_numeric_cell L (CInt i) = CInt i"
| "to_numeric_cell L (CFloat r) = CFloat r"
| "to_numeric_cell L (CBool b) = CBool b"
| "to_numeric_cell L (CStr s) = numeric_of_str L s"
| "to_numeric_cell L v = CNaN"

definition to_numeric :: "runtime \<Rightarrow> column \<Rightarrow> column" where
  "to_numeric L c = numeric_column (map (to_numeric_cell L) (cells c))"

text \<open>\<^verbatim>\<open>series.astype(bool)\<close>: the truth value of every element.\<close>

definition astype_bool :: "column \<Rightarrow> column" where
  "astype_bool c = \<lparr>dtype = BoolT, cells = map (\<lambda>v. CBool (py_bool v)) (cells c)\<rparr>"

text \<open>\<^verbatim>\<open>pd.to_datetime(series, unit='s', errors='coerce')\<close>: a number of seconds inside the
  range of a nanosecond timestamp becomes a timestamp, everything else \<^verbatim>\<open>NaT\<close>.\<close>

definition in_timestamp_bounds :: "rat \<Rightarrow> bool" where
  "in_timestamp_bounds r =
     (- 9223372036854775807 \<le> r * 1000000000 \<and> r * 1000000000 \<le> 9223372036854775807)"

fun to_datetime_cell :: "runtime \<Rightarrow> cell \<Rightarrow> cell" where
  "to_datetime_cell L (CInt i) = (if in_timestamp_bounds (of_int i) then CTime (of_int i) else CNaT)"
| "to_datetime_cell L (CFloat r) = (if in_timestamp_bounds r then CTime r else CNaT)"
| "to_datetime_cell L (CStr s) =
     (case numeric_of_str L s of
        CInt i \<Rightarrow> (if in_timestamp_bounds (of_int i) then CTime (of_int i) else CNaT)
      | CFloat r \<Rightarrow> (if in_timestamp_bounds r then CTime r else CNaT)
      | v \<Rightarrow> CNaT)"
| "to_datetime_cell L v = CNaT"

definition to_datetime :: "runtime \<Rightarrow> column \<Rightarrow> column" where
  "to_datetime L c = \<lparr>dtype = DatetimeT, cells = map (to_datetime_cell L) (cells c)\<rparr>"

text \<open>\<^verbatim>\<open>.dt.date\<close>, \<^verbatim>\<open>.dt.hour\<close> and \<^verbatim>\<open>.dt.day_name()\<close>. The first of January 1970 was a
  Thursday.\<close>

definition day_names :: "string list" where
  "day_names = [''Monday'', ''Tuesday'', ''Wednesday'', ''Thursday'', ''Friday'', ''Saturday'', ''Sunday'']"

fun dt_date :: "cell \<Rightarrow> cell" where
  "dt_date (CTime t) = CDate (\<lfloor>t / 86400\<rfloor>)"
| "dt_date v = CNaT"

fun dt_hour :: "cell \<Rightarrow> cell" where
  "dt_hour (CTime t) = CInt (\<lfloor>t / 3600\<rfloor> mod 24)"
| "dt_hour v = CNaN"

fun dt_day_name :: "cell \<Rightarrow> cell" where
  "dt_day_name (CTime t) = CStr (day_names ! nat ((\<lfloor>t / 86400\<rfloor> + 3) mod 7))"
| "dt_day_name v = CNaN"

text \<open>The three lists of column names of \<^verbatim>\<open>_convert_types\<close>.\<close>

definition string_columns :: "string list" where
  "string_columns = [''id'', ''subreddit'', ''title'', ''selftext'', ''author'', ''url'', ''permalink'']"

definition numeric_columns :: "string list" where
  "numeric_columns = [''score'', ''num_comments'', ''upvote_ratio'']"

definition boolean_columns :: "string list" where
  "boolean_columns = [''is_self'', ''over_18'', ''stickied'', ''distinguished'']"

definition convert_types :: "runtime \<Rightarrow> frame \<Rightarrow> frame" where
  "convert_types L df0 =
     (let df1 = for_columns (astype_str L) string_columns df0;
          df2 = for_columns (to_numeric L) numeric_columns df1;
          df3 = for_columns astype_bool boolean_columns df2
      in if ''created_utc'' \<in> set (columns df3) then
           (let created = to_datetime L (col df3 ''created_utc'');
                df4 = set_col df3 ''created_utc'' created;
                df5 = set_col df4 ''created_date''
                        \<lparr>dtype = ObjectT, cells = map dt_date (cells created)\<rparr>;
                df6 = set_col df5 ''created_hour'' (numeric_column (map dt_hour (cells created)))
            in set_col df6 ''created_day_of_week''
                 \<lparr>dtype = ObjectT, cells = map dt_day_name (cells created)\<rparr>)
         else df3)"

subsection \<open>Cleaning\<close>

text \<open>\<^verbatim>\<open>df = df[df[field].notna()]\<close> for a field that is a column.\<close>

definition drop_missing :: "string \<Rightarrow> frame \<Rightarrow> frame" where
  "drop_missing field df =
     (if field \<in> set (columns df)
      then filter_rows (map (\<lambda>v. \<not> is_null v) (cells (col df field))) df else df)"

text \<open>\<^verbatim>\<open>series.str.strip()\<close>, where an element that is no string gives \<^verbatim>\<open>nan\<close>, and then
  \<^verbatim>\<open>series.replace('', np.nan)\<close>.\<close>

fun strip_cell :: "cell \<Rightarrow> cell" where
  "strip_cell (CStr s) = CStr (strip s)"
| "strip_cell v = CNaN"

definition clean_text :: "column \<Rightarrow> exn + column" where
  "clean_text c =
     (if has_str_accessor c
      then Inr (replace_by_nan (\<lambda>v. v = CStr [])
                  \<lparr>dtype = ObjectT, cells = map strip_cell (cells c)\<rparr>)
      else Inl str_accessor_error)"

text \<open>\<^verbatim>\<open>series.replace(['[deleted]', '[removed]', 'nan'], np.nan)\<close>.\<close>

definition clean_author :: "column \<Rightarrow> column" where
  "clean_author c =
     replace_by_nan (\<lambda>v. v \<in> {CStr ''[deleted]'', CStr ''[removed]'', CStr ''nan''}) c"

definition clean_data :: "frame \<Rightarrow> exn + frame" where
  "clean_data df0 =
     (case for_columns_try clean_text [''title'', ''selftext'']
             (drop_missing ''title'' (drop_missing ''id'' df0)) of
        Inl e \<Rightarrow> Inl e
      | Inr df2 \<Rightarrow> Inr (for_columns clean_author [''author''] df2))"

subsection \<open>Feature engineering\<close>

text \<open>\<^verbatim>\<open>series.str.len()\<close> and \<^verbatim>\<open>series.str.split().str.len()\<close>.\<close>

fun words :: "string \<Rightarrow> string list" where
  "words [] = []"
| "words (ch # s) =
     (if py_isspace ch then words s
      else (case words s of
              [] \<Rightarrow> [[ch]]
            | w # ws \<Rightarrow> (case s of
                          [] \<Rightarrow> [[ch]]
                        | ch' # s' \<Rightarrow> if py_isspace ch' then [ch] # w # ws else (ch # w) # ws)))"

fun str_len :: "cell \<Rightarrow> cell" where
  "str_len (CStr s) = CInt (int (length s))"
| "str_len v = CNaN"

fun word_count :: "cell \<Rightarrow> cell" where
  "word_count (CStr s) = CInt (int (length (words s)))"
| "word_count v = CNaN"

text \<open>The two features of a text column, \<^verbatim>\<open><name>_length\<close> and \<^verbatim>\<open><name>_word_count\<close>: both
  go through the \<^verbatim>\<open>.str\<close> accessor of the column.\<close>

definition text_features :: "string \<Rightarrow> frame \<Rightarrow> exn + frame" where
  "text_features name df =
     (if name \<in> set (columns df) then
        (if has_str_accessor (col df name) then
           Inr (set_col (set_col df (name @ ''_length'')
                           (numeric_column (map str_len (cells (col df name)))))
                  (name @ ''_word_count'') (numeric_column (map word_count (cells (col df name)))))
         else Inl str_accessor_error)
      else Inr df)"

text \<open>\<^verbatim>\<open>score + num_comments * 2\<close> on two numeric columns, element by element; the
  arithmetic of an \<^verbatim>\<open>int64\<close> column wraps around, and a boolean enters it as 0 or 1.\<close>

definition wrap_int64 :: "int \<Rightarrow> int" where
  "wrap_int64 i = (i + 9223372036854775808) mod 18446744073709551616 - 9223372036854775808"

fun engagement :: "cell \<Rightarrow> cell \<Rightarrow> cell" where
  "engagement (CInt a) (CInt b) = CInt (wrap_int64 (a + wrap_int64 (b * 2)))"
| "engagement (CInt a) (CFloat b) = CFloat (float64 (float64 (of_int a) + float64 (b * 2)))"
| "engagement (CFloat a) (CInt b) = CFloat (float64 (a + float64 (of_int (wrap_int64 (b * 2)))))"
| "engagement (CFloat a) (CFloat b) = CFloat (float64 (a + float64 (b * 2)))"
| "engagement v w = CNaN"

text \<open>\<^verbatim>\<open>pd.cut\<close> with the bins \<^verbatim>\<open>[-inf, 0, 10, 100, 1000, inf]\<close>, closed on the right; a
  boolean column is cut as the integers 0 and 1.\<close>

definition category :: "rat \<Rightarrow> string" where
  "category x =
     (if x \<le> 0 then ''Negative''
      else if x \<le> 10 then ''Low''
      else if x \<le> 100 then ''Medium''
      else if x \<le> 1000 then ''High''
      else ''Viral'')"

fun cut :: "cell \<Rightarrow> cell" where
  "cut (CInt i) = CStr (category (of_int i))"
| "cut (CFloat r) = CStr (category r)"
| "cut (CBool b) = CStr (category (if b then 1 else 0))"
| "cut v = CNaN"

text \<open>The engagement score and the popularity category.\<close>

definition score_features :: "frame \<Rightarrow> frame" where
  "score_features df2 =
     (let df3 = (if ''score'' \<in> set (columns df2) \<and> ''num_comments'' \<in> set (columns df2) then
                   set_col df2 ''engagement_score''
                     (numeric_column (map (\<lambda>(a, b). engagement (as_number a) (as_number b))
                        (zip (cells (col df2 ''score'')) (cells (col df2 ''num_comments'')))))
                 else df2)
      in if ''score'' \<in> set (columns df3) then
           set_col df3 ''popularity_category''
             \<lparr>dtype = CategoryT, cells = map cut (cells (col df3 ''score''))\<rparr>
         else df3)"

definition engineer_features :: "frame \<Rightarrow> exn + frame" where
  "engineer_features df0 =
     (case text_features ''title'' df0 of
        Inl e \<Rightarrow> Inl e
      | Inr df1 \<Rightarrow>
          (case text_features ''selftext'' df1 of
             Inl e \<Rightarrow> Inl e
           | Inr df2 \<Rightarrow> Inr (score_features df2)))"

subsection \<open>Deduplication\<close>

text \<open>\<^verbatim>\<open>df.drop_duplicates(subset=['id'], keep='first')\<close>: a row stays when its id has not
  occurred above.\<close>

definition remove_duplicates :: "frame \<Rightarrow> frame" where
  "remove_duplicates df =
     (if ''id'' \<in> set (columns df)
      then filter_rows (map Not (duplicated [] (map py_key (cells (col df ''id''))))) df else df)"

subsection \<open>\<^verbatim>\<open>transform_reddit_posts\<close> and \<^verbatim>\<open>prepare_for_export\<close>\<close>

text \<open>The four stages run inside a \<^verbatim>\<open>try\<close> whose \<^verbatim>\<open>except\<close> turns any exception into a
  \<^verbatim>\<open>ProcessingException\<close>.\<close>

definition transformation_failed :: "exn \<Rightarrow> exn" where
  "transformation_failed e = ProcessingException (''Data transformation failed: '' @ str_exn e)"

definition transform_reddit_posts :: "runtime \<Rightarrow> frame \<Rightarrow> exn + frame" where
  "transform_reddit_posts L df =
     (if empty_frame df then Inr df
      else
        (case clean_data (convert_types L df) of
           Inl e \<Rightarrow> Inl (transformation_failed e)
         | Inr df2 \<Rightarrow>
             (case engineer_features df2 of
                Inl e \<Rightarrow> Inl (transformation_failed e)
              | Inr df3 \<Rightarrow> Inr (remove_duplicates df3))))"

text \<open>\<^verbatim>\<open>s.lower()\<close> on ASCII letters.\<close>

definition lower :: "string \<Rightarrow> string" where
  "lower s = map (\<lambda>ch. if 65 \<le> (of_char ch :: nat) \<and> (of_char ch :: nat) \<le> 90
                     then char_of (of_char ch + 32 :: nat) else ch) s"

text \<open>For \<^verbatim>\<open>csv\<close> a datetime column becomes its \<^verbatim>\<open>strftime\<close> text; then every missing value
  becomes the empty string.\<close>

fun strftime_cell :: "runtime \<Rightarrow> cell \<Rightarrow> cell" where
  "strftime_cell L (CTime t) = CStr (strftime L t)"
| "strftime_cell L v = CNaN"

definition prepare_for_export :: "runtime \<Rightarrow> frame \<Rightarrow> string \<Rightarrow> frame" where
  "prepare_for_export L df fmt =
     (let df1 = (if lower fmt = ''csv''
                 then df\<lparr>cols := map (\<lambda>(n, c). (n, if dtype c = DatetimeT
                                  then \<lparr>dtype = ObjectT, cells = map (strftime_cell L) (cells c)\<rparr>
                                  else c)) (cols df)\<rparr>
                 else df)
      in df1\<lparr>cols := map (\<lambda>(n, c). (n, c\<lparr>cells := map (\<lambda>v. if is_null v then CStr [] else v) (cells c)\<rparr>))
                      (cols df1)\<rparr>)"

section \<open>Orchestrator: \<^verbatim>\<open>src/pipelines/reddit_pipeline.py\<close>\<close>

text \<open>
  What a run reads from outside: the configured output directory, the text of today's
  date (\<^verbatim>\<open>datetime.now().strftime("%Y%m%d")\<close>), the clock reading of the validator, and
  whether creating the directory or writing a file fails. The sink is the list of the
  files written so far, each a path and the frame written to it.
\<close>

record environment =
  output_path :: string
  today :: string
  clock :: rat
  mkdir_error :: "exn option"
  to_csv_error :: "string \<Rightarrow> exn option"

type_synonym sink = "(string \<times> frame) list"

text \<open>\<^verbatim>\<open>DataValidator()\<close>, as the pipeline constructs it.\<close>

definition default_validator :: validator where
  "default_validator = \<lparr>min_rows = 1, max_null_percentage = 50, require_unique_ids = True\<rparr>"

definition save_dataframe ::
  "runtime \<Rightarrow> environment \<Rightarrow> frame \<Rightarrow> string \<Rightarrow> sink \<Rightarrow> (exn + string) \<times> sink" where
  "save_dataframe L env df filename files =
     (case mkdir_error env of
        Some e \<Rightarrow> (Inl e, files)
      | None \<Rightarrow>
          (let path = output_path env @ ''/'' @ filename @ ''.csv'';
               df_export = prepare_for_export L df ''csv''
           in case to_csv_error env path of
                Some e \<Rightarrow> (Inl e, files)
              | None \<Rightarrow> (Inr path, files @ [(path, df_export)])))"

text \<open>Steps 2 to 4 of \<^verbatim>\<open>run\<close>, after the extraction has given a frame that is not empty.\<close>

definition run_steps ::
  "runtime \<Rightarrow> environment \<Rightarrow> frame \<Rightarrow> string option \<Rightarrow> bool \<Rightarrow> bool \<Rightarrow> sink \<Rightarrow>
   (exn + string) \<times> sink" where
  "run_steps L env df0 output_filename do_validate do_transform files =
     (case (if do_transform then transform_reddit_posts L df0 else Inr df0) of
        Inl e \<Rightarrow> (Inl e, files)
      | Inr df \<Rightarrow>
          (case (if do_validate then
                   (case validate L default_validator (clock env) df of
                      Inl e \<Rightarrow> Some e
                    | Inr validation_result \<Rightarrow>
                        if \<not> is_valid validation_result \<and> errors validation_result \<noteq> [] then
                          Some (RedditPipelineException
                                  (''Data validation failed: ''
                                     @ join '', '' (map (message_text L) (errors validation_result))))
                        else None)
                 else None) of
             Some e \<Rightarrow> (Inl e, files)
           | None \<Rightarrow>
               save_dataframe L env df
                 (case output_filename of None \<Rightarrow> ''reddit_'' @ today env | Some f \<Rightarrow> f) files))"

text \<open>
  \<^verbatim>\<open>RedditPipeline.run\<close>. The whole body is inside a \<^verbatim>\<open>try\<close> whose \<^verbatim>\<open>except\<close> wraps any
  exception, its own included, in a \<^verbatim>\<open>RedditPipelineException\<close>. The batch extraction is
  called with its default pause of one second. The result comes with the sink and with
  the log of the extraction.
\<close>

definition run ::
  "runtime \<Rightarrow> environment \<Rightarrow> reddit_client \<Rightarrow> bool \<Rightarrow> string list \<Rightarrow> string \<Rightarrow> int option \<Rightarrow>
   string \<Rightarrow> string option \<Rightarrow> bool \<Rightarrow> bool \<Rightarrow> sink \<Rightarrow> (exn + string) \<times> sink \<times> event list" where
  "run L env api has_client subreddits time_filter limit_per_subreddit sort_name output_filename
     do_validate do_transform files =
     (case extract_posts_batch L api has_client subreddits time_filter limit_per_subreddit
             sort_name 1 of
        (df, has_client', evs) \<Rightarrow>
          (case (if empty_frame df
                 then (Inl (RedditPipelineException ''No data extracted from Reddit''), files)
                 else run_steps L env df output_filename do_validate do_transform files) of
             (Inl e, files') \<Rightarrow>
               (Inl (RedditPipelineException (''Pipeline execution failed: '' @ str_exn e)), files', evs)
           | (Inr path, files') \<Rightarrow> (Inr path, files', evs)))"

section \<open>Predicates of the statements\<close>

text \<open>A partition that gives nothing to the batch: its extraction fails, or returns no
  post.\<close>

definition no_posts :: "exn + post_dict list \<Rightarrow> bool" where
  "no_posts r = (case r of Inl e \<Rightarrow> True | Inr posts \<Rightarrow> posts = [])"

text \<open>
  The values an ordering comparison with a number accepts, and the frames on which the
  three comparisons of the business tier raise nothing: each of \<^verbatim>\<open>score\<close>,
  \<^verbatim>\<open>num_comments\<close> and \<^verbatim>\<open>upvote_ratio\<close> is absent, or is neither a datetime nor a
  categorical column and holds only numbers, booleans and missing values.
\<close>

fun is_comparable :: "cell \<Rightarrow> bool" where
  "is_comparable (CInt i) = True"
| "is_comparable (CFloat r) = True"
| "is_comparable (CBool b) = True"
| "is_comparable CNone = True"
| "is_comparable CNaN = True"
| "is_comparable CNaT = True"
| "is_comparable v = False"

definition comparable_column :: "frame \<Rightarrow> string \<Rightarrow> bool" where
  "comparable_column df name =
     (name \<in> set (columns df) \<longrightarrow>
        dtype (col df name) \<noteq> DatetimeT \<and> dtype (col df name) \<noteq> CategoryT \<and>
        list_all is_comparable (cells (col df name)))"

definition comparable_columns :: "frame \<Rightarrow> bool" where
  "comparable_columns df =
     (comparable_column df ''score'' \<and> comparable_column df ''num_comments'' \<and>
      comparable_column df ''upvote_ratio'')"

text \<open>Every column has one cell per row.\<close>

definition aligned :: "frame \<Rightarrow> bool" where
  "aligned df = list_all (\<lambda>(n, c). length (cells c) = nrows df) (cols df)"

text \<open>The rows that hold the first occurrence of their value.\<close>

definition first_occurrences :: "'a list \<Rightarrow> nat set" where
  "first_occurrences vs = {i. i < length vs \<and> vs ! i \<notin> set (take i vs)}"

section \<open>Concrete inputs for the worked examples\<close>

text \<open>An instance of the runtime parameter. Strings are written between single quotes by
  \<open>str_repr\<close>, and no string spells a number.\<close>

definition example_runtime :: runtime where
  "example_runtime =
     \<lparr>float_str = (\<lambda>r. ''<float>''), fmt_2f = (\<lambda>r. ''<float>''), str_repr = quoted,
      int_of_str = (\<lambda>s. None), numeric_of_str = (\<lambda>s. CNaN), time_str = (\<lambda>t. ''<timestamp>''),
      date_str = (\<lambda>d. ''<date>''), strftime = (\<lambda>t. ''<timestamp>''),
      cmp_error_text = (\<lambda>d vs. ''<not supported>'')\<rparr>"

text \<open>A submission with a title, a score that fails to load, a creation time that is no
  number, and nothing else.\<close>

definition example_post :: submission where
  "example_post field =
     (if field = ''title'' then Value (CStr ''Test Title'')
      else if field = ''score'' then Raises (PrawcoreException ''received 404 HTTP response'')
      else if field = ''created_utc'' then Value (CStr ''yesterday'')
      else NoAttribute)"

text \<open>A client whose subreddits all exist and list nothing, and one that cannot reach any
  subreddit.\<close>

definition quiet_client :: reddit_client where
  "quiet_client =
     \<lparr>make_client = None, user_me = None, subreddit_of = (\<lambda>s. None),
      listing = (\<lambda>s m t l. ([], None))\<rparr>"

definition failing_client :: reddit_client where
  "failing_client =
     \<lparr>make_client = None, user_me = None,
      subreddit_of = (\<lambda>s. Some (PrawcoreException ''received 403 HTTP response'')),
      listing = (\<lambda>s m t l. ([], None))\<rparr>"

definition example_environment :: environment where
  "example_environment =
     \<lparr>output_path = ''data/output'', today = ''20240101'', clock = 1704067200,
      mkdir_error = None, to_csv_error = (\<lambda>p. None)\<rparr>"

text \<open>The frame of the validator's own test of valid data, and a frame of five posts of
  which three have no text.\<close>

definition valid_frame :: frame where
  "valid_frame =
     \<lparr>nrows = 3,
      cols = [(''id'', \<lparr>dtype = ObjectT, cells = [CStr ''1'', CStr ''2'', CStr ''3'']\<rparr>),
              (''title'', \<lparr>dtype = ObjectT,
                            cells = [CStr ''Title 1'', CStr ''Title 2'', CStr ''Title 3'']\<rparr>),
              (''subreddit'', \<lparr>dtype = ObjectT, cells = [CStr ''test'', CStr ''test'', CStr ''test'']\<rparr>),
              (''score'', \<lparr>dtype = Int64T, cells = [CInt 10, CInt 20, CInt 30]\<rparr>),
              (''num_comments'', \<lparr>dtype = Int64T, cells = [CInt 5, CInt 10, CInt 15]\<rparr>)]\<rparr>"



text \<open>Two posts without a title column, and two posts created on the first and second of
  January 2024.\<close>

definition untitled_frame :: frame where
  "untitled_frame =
     \<lparr>nrows = 2,
      cols = [(''id'', \<lparr>dtype = ObjectT, cells = [CStr ''1'', CStr ''2'']\<rparr>),
              (''subreddit'', \<lparr>dtype = ObjectT, cells = [CStr ''test'', CStr ''news'']\<rparr>),
              (''score'', \<lparr>dtype = Int64T, cells = [CInt 10, CInt 20]\<rparr>)]\<rparr>"


text \<open>The frame of the transformer's test of duplicate removal: three rows, one id
  repeated. And two posts of which one has no \<^verbatim>\<open>distinguished\<close> value.\<close>

definition duplicated_frame :: frame where
  "duplicated_frame =
     \<lparr>nrows = 3,
      cols = [(''id'', \<lparr>dtype = ObjectT, cells = [CStr ''1'', CStr ''1'', CStr ''2'']\<rparr>),
              (''title'', \<lparr>dtype = ObjectT,
                            cells = [CStr ''Title 1'', CStr ''Title 2'', CStr ''Title 3'']\<rparr>)]\<rparr>"

definition moderated_frame :: frame where
  "moderated_frame =
     \<lparr>nrows = 2,
      cols = [(''id'', \<lparr>dtype = ObjectT, cells = [CStr ''1'', CStr ''2'']\<rparr>),
              (''title'', \<lparr>dtype = ObjectT, cells = [CStr ''Title 1'', CStr ''Title 2'']\<rparr>),
              (''stickied'', \<lparr>dtype = BoolT, cells = [CBool False, CBool True]\<rparr>),
              (''distinguished'', \<lparr>dtype = ObjectT, cells = [CNone, CStr ''moderator'']\<rparr>)]\<rparr>"

text \<open>Three posts with one id repeated, of which the post with the other id has no
  title.\<close>

definition partly_titled_frame :: frame where
  "partly_titled_frame =
     \<lparr>nrows = 3,
      cols = [(''id'', \<lparr>dtype = ObjectT, cells = [CStr ''1'', CStr ''1'', CStr ''2'']\<rparr>),
              (''title'', \<lparr>dtype = ObjectT, cells = [CStr ''Title 1'', CStr ''Title 2'', CNaN]\<rparr>)]\<rparr>"

text \<open>A link post, as praw gives it: its \<^verbatim>\<open>selftext\<close> is the empty string. And a client
  whose listings hold this one post.\<close>

definition link_post :: submission where
  "link_post field =
     (if field = ''id'' then Value (CStr ''18v9x2'')
      else if field = ''subreddit'' then Value (CObj ''python'')
      else if field = ''title'' then Value (CStr ''A link'')
      else if field = ''selftext'' then Value (CStr [])
      else if field = ''score'' then Value (CInt 10)
      else if field = ''num_comments'' then Value (CInt 2)
      else if field = ''author'' then Value (CObj ''someone'')
      else if field = ''created_utc'' then Value (CFloat 1704067200)
      else if field = ''upvote_ratio'' then Value (CFloat (3 / 4))
      else if field = ''url'' then Value (CStr ''https://example.org/'')
      else if field = ''permalink'' then Value (CStr ''/r/python/comments/18v9x2/a_link/'')
      else if field = ''is_self'' then Value (CBool False)
      else if field = ''over_18'' then Value (CBool False)
      else if field = ''stickied'' then Value (CBool False)
      else if field = ''distinguished'' then Value CNone
      else NoAttribute)"

definition link_client :: reddit_client where
  "link_client =
     \<lparr>make_client = None, user_me = None, subreddit_of = (\<lambda>s. None),
      listing = (\<lambda>s m t l. ([link_post], None))\<rparr>"

section \<open>Floating point: halving is exact\<close>








section \<open>Frames: masks, columns and loops over columns\<close>

lemma map_of_map_cols_gen:
  "map_of (map (\<lambda>(n, c). (n, f c)) xs) name = map_option f (map_of xs name)"
  by (induction xs) auto

lemma length_duplicated [simp]: "length (duplicated seen vs) = length vs"
  by (induction vs arbitrary: seen) auto

lemma select_Nil [simp]: "select [] xs = []" "select keep [] = []"
  by (simp_all add: select_def)

lemma select_Cons [simp]: "select (b # keep) (x # xs) = (if b then x # select keep xs else select keep xs)"
  by (simp add: select_def)

lemma count_true_Cons [simp]: "count_true (b # bs) = (if b then Suc (count_true bs) else count_true bs)"
  by (simp add: count_true_def)

lemma count_true_Nil [simp]: "count_true [] = 0"
  by (simp add: count_true_def)

lemma length_select: "length keep = length xs \<Longrightarrow> length (select keep xs) = count_true keep"
  by (induction keep xs rule: list_induct2) auto

lemma length_select_le: "length (select keep xs) \<le> count_true keep"
proof (induction keep arbitrary: xs)
  case Nil
  then show ?case by simp
next
  case (Cons b keep)
  then show ?case by (cases xs) (auto intro: le_SucI)
qed

lemma select_all: "length xs \<le> n \<Longrightarrow> select (replicate n True) xs = xs"
proof (induction xs arbitrary: n)
  case Nil
  then show ?case by simp
next
  case (Cons x xs)
  then show ?case by (cases n) auto
qed

lemma count_true_replicate [simp]: "count_true (replicate n True) = n"
  by (induction n) auto

lemma kept_set: "set (select (map Not (duplicated seen vs)) vs) = set vs - set seen"
  by (induction vs arbitrary: seen) auto

lemma kept_distinct: "distinct (select (map Not (duplicated seen vs)) vs)"
  by (induction vs arbitrary: seen) (auto simp: kept_set)

lemma duplicated_distinct:
  "distinct vs \<Longrightarrow> set vs \<inter> set seen = {} \<Longrightarrow> duplicated seen vs = replicate (length vs) False"
  by (induction vs arbitrary: seen) auto

lemma select_nths:
  "length xs = length vs \<Longrightarrow>
   select (map Not (duplicated seen vs)) xs
     = nths xs {i. i < length vs \<and> vs ! i \<notin> set seen \<union> set (take i vs)}"
proof (induction xs vs arbitrary: seen rule: list_induct2)
  case Nil
  then show ?case by simp
next
  case (Cons x xs v vs)
  have s: "{j. Suc j \<in> {i. i < length (v # vs) \<and> (v # vs) ! i \<notin> set seen \<union> set (take i (v # vs))}}
         = {i. i < length vs \<and> vs ! i \<notin> set (v # seen) \<union> set (take i vs)}"
    by auto
  have "select (map Not (duplicated seen (v # vs))) (x # xs)
          = (if v \<notin> set seen then [x] else []) @ select (map Not (duplicated (v # seen) vs)) xs"
    by simp
  also have "\<dots> = (if v \<notin> set seen then [x] else [])
                    @ nths xs {i. i < length vs \<and> vs ! i \<notin> set (v # seen) \<union> set (take i vs)}"
    by (simp only: Cons.IH)
  also have "\<dots> = nths (x # xs)
                      {i. i < length (v # vs) \<and> (v # vs) ! i \<notin> set seen \<union> set (take i (v # vs))}"
    unfolding nths_Cons s by simp
  finally show ?case .
qed

lemma columns_filter_rows [simp]: "columns (filter_rows keep df) = columns df"
  by (simp add: columns_def filter_rows_def comp_def case_prod_beta)

lemma in_columns_map_of: "name \<in> set (columns df) \<Longrightarrow> \<exists>c. map_of (cols df) name = Some c"
  unfolding columns_def by (metis map_of_eq_None_iff not_None_eq set_map)

lemma col_filter_rows:
  "name \<in> set (columns df) \<Longrightarrow>
   col (filter_rows keep df) name = (col df name)\<lparr>cells := select keep (cells (col df name))\<rparr>"
  using in_columns_map_of [of name df]
  by (auto simp: col_def filter_rows_def map_of_map_cols_gen)

lemma map_of_dict_set: "map_of (dict_set d k v) = (map_of d)(k \<mapsto> v)"
  by (induction d) (auto simp: fun_eq_iff)

lemma keys_dict_set: "fst ` set (dict_set d k v) = insert k (fst ` set d)"
  unfolding dom_map_of_conv_image_fst [symmetric] map_of_dict_set by simp

lemma col_set_col: "col (set_col df n c) m = (if m = n then c else col df m)"
  by (simp add: col_def set_col_def map_of_dict_set)

lemma columns_set_col: "set (columns (set_col df n c)) = insert n (set (columns df))"
  by (simp add: columns_def set_col_def keys_dict_set)

lemma columns_for_columns: "set (columns (for_columns f names df)) = set (columns df)"
  by (induction names arbitrary: df) (auto simp: columns_set_col)

lemma for_columns_other: "m \<notin> set names \<Longrightarrow> col (for_columns f names df) m = col df m"
  by (induction names arbitrary: df) (auto simp: col_set_col)

lemma for_columns_hit:
  "distinct names \<Longrightarrow> m \<in> set names \<Longrightarrow> m \<in> set (columns df) \<Longrightarrow>
   col (for_columns f names df) m = f (col df m)"
proof (induction names arbitrary: df)
  case Nil
  then show ?case by simp
next
  case (Cons n names)
  show ?case
  proof (cases "m = n")
    case True
    with Cons.prems have "m \<notin> set names" by simp
    with True Cons.prems(3) show ?thesis by (simp add: for_columns_other col_set_col)
  next
    case False
    with Cons.prems have "m \<in> set names" "distinct names" by simp_all
    with False Cons.prems(3) Cons.IH show ?thesis by (simp add: col_set_col columns_set_col)
  qed
qed

lemma select_map: "select keep (map f xs) = map f (select keep xs)"
proof (induction keep arbitrary: xs)
  case Nil
  then show ?case by simp
next
  case (Cons b keep)
  then show ?case by (cases xs) auto
qed

lemma nrows_set_col [simp]: "nrows (set_col df name c) = nrows df"
  by (simp add: set_col_def)

lemma nrows_for_columns [simp]: "nrows (for_columns f names df) = nrows df"
  by (induction names arbitrary: df) auto

lemma in_columns_set_col: "m \<in> set (columns (set_col df n c)) \<longleftrightarrow> m = n \<or> m \<in> set (columns df)"
  by (simp add: columns_set_col)

lemma aligned_col:
  "aligned df \<Longrightarrow> name \<in> set (columns df) \<Longrightarrow> length (cells (col df name)) = nrows df"
proof -
  assume a: "aligned df" and n: "name \<in> set (columns df)"
  from n obtain c where c: "map_of (cols df) name = Some c"
    using in_columns_map_of by blast
  then have "(name, c) \<in> set (cols df)" by (rule map_of_SomeD)
  with a have "length (cells c) = nrows df" by (auto simp: aligned_def list_all_iff)
  with c show ?thesis by (simp add: col_def)
qed

lemma list_all_dict_set:
  "list_all P d \<Longrightarrow> P (k, v) \<Longrightarrow> list_all P (dict_set d k v)"
  by (induction d) auto

lemma aligned_set_col:
  "aligned df \<Longrightarrow> length (cells c) = nrows df \<Longrightarrow> aligned (set_col df name c)"
  unfolding aligned_def set_col_def by (simp add: list_all_dict_set)

lemma aligned_for_columns:
  assumes f: "\<And>c. length (cells (f c)) = length (cells c)"
  shows "aligned df \<Longrightarrow> aligned (for_columns f names df)"
proof (induction names arbitrary: df)
  case Nil
  then show ?case by simp
next
  case (Cons n names)
  show ?case
  proof (cases "n \<in> set (columns df)")
    case True
    with Cons.prems have "length (cells (f (col df n))) = nrows df"
      by (simp add: f aligned_col)
    with Cons.prems have "aligned (set_col df n (f (col df n)))" by (rule aligned_set_col)
    with Cons.IH True show ?thesis by simp
  next
    case False
    with Cons show ?thesis by simp
  qed
qed

text \<open>A mask that keeps every row leaves an aligned frame as it is.\<close>

lemma filter_rows_all:
  assumes "aligned df" and "keep = replicate (nrows df) True"
  shows "filter_rows keep df = df"
proof -
  have "map (\<lambda>(n, c). (n, c\<lparr>cells := select keep (cells c)\<rparr>)) (cols df) = cols df"
  proof (rule map_idI)
    fix x assume x: "x \<in> set (cols df)"
    obtain n c where nc: "x = (n, c)" by (cases x)
    with x assms(1) have "length (cells c) = nrows df" by (auto simp: aligned_def list_all_iff)
    then have "select keep (cells c) = cells c" unfolding assms(2) by (intro select_all) simp
    with nc show "(case x of (n, c) \<Rightarrow> (n, c\<lparr>cells := select keep (cells c)\<rparr>)) = x" by simp
  qed
  then show ?thesis unfolding filter_rows_def assms(2) by simp
qed

lemma drop_missing_none:
  assumes "aligned df" and "field \<in> set (columns df) \<longrightarrow> \<not> list_ex is_null (cells (col df field))"
  shows "drop_missing field df = df"
proof (cases "field \<in> set (columns df)")
  case False
  then show ?thesis by (simp add: drop_missing_def)
next
  case True
  with assms(2) have n: "\<forall>v \<in> set (cells (col df field)). \<not> is_null v" by (simp add: list_ex_iff)
  have l: "length (cells (col df field)) = nrows df" by (rule aligned_col [OF assms(1) True])
  have "map (\<lambda>v. \<not> is_null v) (cells (col df field)) = replicate (nrows df) True"
    unfolding l [symmetric] using n by (simp add: map_replicate_const [symmetric] cong: map_cong)
  then show ?thesis
    using True filter_rows_all [OF assms(1)] by (simp add: drop_missing_def)
qed

section \<open>Transformer: the text columns through the stages\<close>

lemma length_soft_convert [simp]: "length (cells (soft_convert vs)) = length vs"
  by (simp add: soft_convert_def)

lemma length_replace_by_nan [simp]: "length (cells (replace_by_nan hit c)) = length (cells c)"
  by (simp add: replace_by_nan_def)

lemma length_astype_str [simp]: "length (cells (astype_str L c)) = length (cells c)"
  by (simp add: astype_str_def)

lemma length_numeric_column [simp]: "length (cells (numeric_column vs)) = length vs"
  by (simp add: numeric_column_def)

lemma length_to_numeric [simp]: "length (cells (to_numeric L c)) = length (cells c)"
  by (simp add: to_numeric_def)

lemma length_astype_bool [simp]: "length (cells (astype_bool c)) = length (cells c)"
  by (simp add: astype_bool_def)

lemma length_to_datetime [simp]: "length (cells (to_datetime L c)) = length (cells c)"
  by (simp add: to_datetime_def)

text \<open>A column that holds a string stays an object column when other values of it are
  replaced by \<^verbatim>\<open>nan\<close>.\<close>

lemma soft_convert_str: "CStr s \<in> set vs \<Longrightarrow> soft_convert vs = \<lparr>dtype = ObjectT, cells = vs\<rparr>"
proof -
  assume s: "CStr s \<in> set vs"
  have "\<not> is_CBool (CStr s)" "\<not> is_CInt (CStr s)"
    "\<not> (is_number (CStr s) \<or> CStr s = CNaN \<or> CStr s = CNone)"
    by simp_all
  with s have "\<not> list_all is_CBool vs" "\<not> list_all is_CInt vs"
    "\<not> list_all (\<lambda>v. is_number v \<or> v = CNaN \<or> v = CNone) vs"
    unfolding list_all_iff by blast+
  then show ?thesis by (simp add: soft_convert_def)
qed

lemma replace_by_nan_none: "\<not> list_ex hit (cells c) \<Longrightarrow> replace_by_nan hit c = c"
  by (simp add: replace_by_nan_def)

lemma replace_by_nan_keeps:
  assumes "dtype c = ObjectT" and "CStr s \<in> set (cells c)" and "\<not> hit (CStr s)"
  shows "dtype (replace_by_nan hit c) = ObjectT \<and> CStr s \<in> set (cells (replace_by_nan hit c))"
proof (cases "list_ex hit (cells c)")
  case False
  with assms show ?thesis by (simp add: replace_by_nan_def)
next
  case True
  let ?vs = "map (\<lambda>v. if hit v then CNaN else v) (cells c)"
  from assms(2,3) have "(\<lambda>v. if hit v then CNaN else v) (CStr s) \<in> set ?vs"
    unfolding set_map by (intro imageI)
  with assms(3) have m: "CStr s \<in> set ?vs" by simp
  then have "soft_convert ?vs = \<lparr>dtype = ObjectT, cells = ?vs\<rparr>" by (rule soft_convert_str)
  with True assms(1) m show ?thesis by (simp add: replace_by_nan_def)
qed

lemma astype_str_plain:
  assumes "\<forall>v \<in> set (cells c). py_str L v \<noteq> ''nan''"
  shows "astype_str L c = \<lparr>dtype = ObjectT, cells = map (\<lambda>v. CStr (py_str L v)) (cells c)\<rparr>"
  unfolding astype_str_def using assms by (intro replace_by_nan_none) (auto simp: list_ex_iff)

lemma astype_str_keeps:
  assumes "v \<in> set (cells c)" and "py_str L v \<noteq> ''nan''"
  shows "dtype (astype_str L c) = ObjectT \<and> CStr (py_str L v) \<in> set (cells (astype_str L c))"
  unfolding astype_str_def using assms by (intro replace_by_nan_keeps) auto

text \<open>The \<^verbatim>\<open>.str\<close> accessor accepts an object column that holds a string.\<close>

lemma has_str_accessor_str:
  assumes "dtype c = ObjectT" and "CStr s \<in> set (cells c)"
  shows "has_str_accessor c"
proof -
  let ?present = "filter (\<lambda>v. \<not> is_null v) (cells c)"
  from assms(2) have p: "CStr s \<in> set ?present" by simp
  have "\<not> is_number (CStr s)" "\<not> is_CBool (CStr s)" "\<not> is_CTime (CStr s)" "\<not> is_CDate (CStr s)"
    by simp_all
  with p have "\<not> list_all is_number ?present" "\<not> list_all is_CBool ?present"
    "\<not> list_all is_CTime ?present" "\<not> list_all is_CDate ?present"
    unfolding list_all_iff by blast+
  with assms(1) show ?thesis by (simp add: has_str_accessor_def Let_def)
qed

lemma clean_text_keeps:
  assumes "dtype c = ObjectT" and "CStr s \<in> set (cells c)" and "strip s \<noteq> []"
  shows "\<exists>c'. clean_text c = Inr c' \<and> dtype c' = ObjectT \<and> CStr (strip s) \<in> set (cells c')"
proof -
  let ?c = "\<lparr>dtype = ObjectT, cells = map strip_cell (cells c)\<rparr>"
  from assms(2) have "strip_cell (CStr s) \<in> set (cells ?c)" by (simp del: strip_cell.simps)
  then have "CStr (strip s) \<in> set (cells ?c)" by simp
  moreover have "dtype ?c = ObjectT" by simp
  moreover have "\<not> (CStr (strip s) = CStr [])" using assms(3) by simp
  ultimately have "dtype (replace_by_nan (\<lambda>v. v = CStr []) ?c) = ObjectT \<and>
      CStr (strip s) \<in> set (cells (replace_by_nan (\<lambda>v. v = CStr []) ?c))"
    by (intro replace_by_nan_keeps)
  moreover have "has_str_accessor c" using assms(1,2) by (rule has_str_accessor_str)
  ultimately show ?thesis by (simp add: clean_text_def)
qed

text \<open>The loop over the text columns, when \<open>f\<close> raises on no column it meets: every
  column that is not named stays as it is, and every named one gets what \<open>f\<close> returns.\<close>

lemma for_columns_try_ok:
  assumes f: "\<And>c. P c \<Longrightarrow> \<exists>c'. f c = Inr c' \<and> Q c'"
  shows "distinct names \<Longrightarrow> (\<forall>n \<in> set names. n \<in> set (columns df) \<longrightarrow> P (col df n)) \<Longrightarrow>
         \<exists>df'. for_columns_try f names df = Inr df' \<and> nrows df' = nrows df \<and>
               set (columns df') = set (columns df) \<and>
               (\<forall>m. m \<notin> set names \<longrightarrow> col df' m = col df m) \<and>
               (\<forall>n \<in> set names. n \<in> set (columns df) \<longrightarrow> Q (col df' n))"
proof (induction names arbitrary: df)
  case Nil
  then show ?case by simp
next
  case (Cons n names)
  from Cons.prems have d: "distinct names" and nn: "n \<notin> set names" by simp_all
  show ?case
  proof (cases "n \<in> set (columns df)")
    case False
    from Cons.prems have p: "\<forall>m \<in> set names. m \<in> set (columns df) \<longrightarrow> P (col df m)" by simp
    from Cons.IH [OF d p] obtain df' where r: "for_columns_try f names df = Inr df'"
      "nrows df' = nrows df" "set (columns df') = set (columns df)"
      "\<forall>m. m \<notin> set names \<longrightarrow> col df' m = col df m"
      "\<forall>m \<in> set names. m \<in> set (columns df) \<longrightarrow> Q (col df' m)"
      by blast
    from False r(1) have "for_columns_try f (n # names) df = Inr df'" by simp
    moreover from r(4) have "\<forall>m. m \<notin> set (n # names) \<longrightarrow> col df' m = col df m" by simp
    moreover from r(5) False have "\<forall>m \<in> set (n # names). m \<in> set (columns df) \<longrightarrow> Q (col df' m)"
      by auto
    ultimately show ?thesis using r(2,3) by blast
  next
    case True
    with Cons.prems have "P (col df n)" by simp
    from f [OF this] obtain c' where c: "f (col df n) = Inr c'" "Q c'" by blast
    let ?df = "set_col df n c'"
    have p: "\<forall>m \<in> set names. m \<in> set (columns ?df) \<longrightarrow> P (col ?df m)"
      using Cons.prems(2) nn by (auto simp: col_set_col columns_set_col)
    from Cons.IH [OF d p] obtain df' where r: "for_columns_try f names ?df = Inr df'"
      "nrows df' = nrows ?df" "set (columns df') = set (columns ?df)"
      "\<forall>m. m \<notin> set names \<longrightarrow> col df' m = col ?df m"
      "\<forall>m \<in> set names. m \<in> set (columns ?df) \<longrightarrow> Q (col df' m)"
      by blast
    from True c(1) r(1) have 1: "for_columns_try f (n # names) df = Inr df'" by simp
    from r(2) have 2: "nrows df' = nrows df" by simp
    from r(3) True have 3: "set (columns df') = set (columns df)"
      by (auto simp: columns_set_col)
    from r(4) have 4: "\<forall>m. m \<notin> set (n # names) \<longrightarrow> col df' m = col df m"
      by (simp add: col_set_col)
    from r(4) nn have "col df' n = c'" by (simp add: col_set_col)
    with c(2) r(5) have 5: "\<forall>m \<in> set (n # names). m \<in> set (columns df) \<longrightarrow> Q (col df' m)"
      by (auto simp: columns_set_col)
    from 1 2 3 4 5 show ?thesis by blast
  qed
qed

subsection \<open>Type coercion\<close>

lemma nrows_convert_types [simp]: "nrows (convert_types L df) = nrows df"
  by (simp add: convert_types_def Let_def)

lemma columns_convert_types:
  assumes "name \<noteq> ''created_date''" and "name \<noteq> ''created_hour''"
    and "name \<noteq> ''created_day_of_week''"
  shows "name \<in> set (columns (convert_types L df)) \<longleftrightarrow> name \<in> set (columns df)"
  using assms by (auto simp: convert_types_def Let_def columns_set_col columns_for_columns)

lemma aligned_convert_types:
  assumes "aligned df"
  shows "aligned (convert_types L df)"
proof -
  let ?df1 = "for_columns (astype_str L) string_columns df"
  let ?df2 = "for_columns (to_numeric L) numeric_columns ?df1"
  let ?df3 = "for_columns astype_bool boolean_columns ?df2"
  let ?created = "to_datetime L (col ?df3 ''created_utc'')"
  have 1: "aligned ?df1" by (rule aligned_for_columns) (simp_all add: assms)
  have 2: "aligned ?df2" by (rule aligned_for_columns) (simp_all add: 1)
  have 3: "aligned ?df3" by (rule aligned_for_columns) (simp_all add: 2)
  show ?thesis
  proof (cases "''created_utc'' \<in> set (columns ?df3)")
    case False
    have "convert_types L df = ?df3"
      unfolding convert_types_def Let_def using False by (simp only: if_False)
    with 3 show ?thesis by (simp only:)
  next
    case True
    have l: "length (cells ?created) = nrows ?df3"
      using aligned_col [OF 3 True] by simp
    have e: "convert_types L df
          = set_col (set_col (set_col (set_col ?df3 ''created_utc'' ?created)
                ''created_date'' \<lparr>dtype = ObjectT, cells = map dt_date (cells ?created)\<rparr>)
              ''created_hour'' (numeric_column (map dt_hour (cells ?created))))
            ''created_day_of_week'' \<lparr>dtype = ObjectT, cells = map dt_day_name (cells ?created)\<rparr>"
      unfolding convert_types_def Let_def using True by (simp only: if_True)
    show ?thesis
      unfolding e using 3 l by (intro aligned_set_col) simp_all
  qed
qed

lemma string_column_converted:
  assumes s: "name \<in> set string_columns" and c: "name \<in> set (columns df)"
  shows "col (convert_types L df) name = astype_str L (col df name)"
proof -
  let ?df1 = "for_columns (astype_str L) string_columns df"
  let ?df2 = "for_columns (to_numeric L) numeric_columns ?df1"
  let ?df3 = "for_columns astype_bool boolean_columns ?df2"
  let ?created = "to_datetime L (col ?df3 ''created_utc'')"
  note s' = s
  from s have nb: "name \<notin> set boolean_columns" and nn: "name \<notin> set numeric_columns"
    and nd: "name \<noteq> ''created_utc''" "name \<noteq> ''created_date''" "name \<noteq> ''created_hour''"
      "name \<noteq> ''created_day_of_week''"
    by (auto simp: boolean_columns_def string_columns_def numeric_columns_def)
  have d: "distinct string_columns" by (simp add: string_columns_def)
  have "col ?df1 name = astype_str L (col df name)"
    by (rule for_columns_hit [OF d s' c])
  moreover have "col ?df3 name = col ?df1 name"
    by (simp only: for_columns_other [OF nn] for_columns_other [OF nb])
  ultimately have 3: "col ?df3 name = astype_str L (col df name)" by (simp only:)
  show ?thesis
  proof (cases "''created_utc'' \<in> set (columns ?df3)")
    case False
    have "convert_types L df = ?df3"
      unfolding convert_types_def Let_def using False by (simp only: if_False)
    with 3 show ?thesis by (simp only:)
  next
    case True
    have "convert_types L df
          = set_col (set_col (set_col (set_col ?df3 ''created_utc'' ?created)
                ''created_date'' \<lparr>dtype = ObjectT, cells = map dt_date (cells ?created)\<rparr>)
              ''created_hour'' (numeric_column (map dt_hour (cells ?created))))
            ''created_day_of_week'' \<lparr>dtype = ObjectT, cells = map dt_day_name (cells ?created)\<rparr>"
      unfolding convert_types_def Let_def using True by (simp only: if_True)
    then show ?thesis using nd 3 by (simp only: col_set_col if_False)
  qed
qed

subsection \<open>Feature engineering\<close>

lemma text_features_ok:
  assumes "name \<in> set (columns df) \<longrightarrow> has_str_accessor (col df name)"
  shows "\<exists>df'. text_features name df = Inr df' \<and> nrows df' = nrows df \<and>
           (\<forall>m. m \<noteq> name @ ''_length'' \<and> m \<noteq> name @ ''_word_count'' \<longrightarrow>
                col df' m = col df m \<and> (m \<in> set (columns df') \<longleftrightarrow> m \<in> set (columns df)))"
  using assms by (auto simp: text_features_def col_set_col columns_set_col)

lemma score_features_other:
  assumes "m \<noteq> ''engagement_score''" and "m \<noteq> ''popularity_category''"
  shows "col (score_features df) m = col df m \<and> nrows (score_features df) = nrows df \<and>
         (m \<in> set (columns (score_features df)) \<longleftrightarrow> m \<in> set (columns df))"
  using assms by (auto simp: score_features_def Let_def col_set_col columns_set_col)

section \<open>Source client: field extraction and the sort mode\<close>

lemma extract_post_fields_keys: "map fst (extract_post_fields L post) = POST_FIELDS"
  by (simp add: extract_post_fields_def comp_def)

lemma extract_post_fields_lookup:
  "f \<in> set POST_FIELDS \<Longrightarrow>
   map_of (extract_post_fields L post) f =
     Some (case extract_field L post f of Inl e \<Rightarrow> CNone | Inr v \<Rightarrow> v)"
  unfolding extract_post_fields_def by (simp add: map_of_map_restrict)

lemma extract_field_cases:
  "extract_field L post f =
     (case post f of
        Raises e \<Rightarrow> Inl e
      | NoAttribute \<Rightarrow> Inr CNone
      | Value v \<Rightarrow>
          if f = ''author'' then Inr (if py_bool v then CStr (py_str L v) else v)
          else if f = ''created_utc'' then
            (if py_bool v then (case py_int L v of Inl e \<Rightarrow> Inl e | Inr i \<Rightarrow> Inr (CInt i))
             else Inr CNone)
          else Inr v)"
  by (simp add: extract_field_def getattr_def split: attr.splits)

text \<open>
  C7. \<^verbatim>\<open>_extract_post_fields\<close> returns a dictionary for every submission (it has no
  exceptional result): its keys are exactly the fields of the fixed list, in order, so no
  key is ever absent. Every field is extracted on its own: a field whose attribute is
  missing, or whose retrieval raises, is stored as \<^verbatim>\<open>None\<close>; a field that is retrieved is
  stored with its value, whatever happens to the other fields, the author as its string
  form when it is truthy, and the creation time as an integer when it is truthy and
  converts, as \<^verbatim>\<open>None\<close> otherwise.
\<close>

theorem extract_post_fields_total:
  "map fst (extract_post_fields L post) = POST_FIELDS \<and>
   (\<forall>f. f \<in> set POST_FIELDS \<longrightarrow>
      (\<exists>v. map_of (extract_post_fields L post) f = Some v) \<and>
      (post f = NoAttribute \<or> (\<exists>e. post f = Raises e) \<or> (\<exists>e. extract_field L post f = Inl e) \<longrightarrow>
         map_of (extract_post_fields L post) f = Some CNone) \<and>
      (\<forall>v. extract_field L post f = Inr v \<longrightarrow> map_of (extract_post_fields L post) f = Some v) \<and>
      (\<forall>v. post f = Value v \<and> f \<noteq> ''author'' \<and> f \<noteq> ''created_utc'' \<longrightarrow>
         map_of (extract_post_fields L post) f = Some v) \<and>
      (\<forall>v. post f = Value v \<and> f = ''author'' \<longrightarrow>
         map_of (extract_post_fields L post) f
           = Some (if py_bool v then CStr (py_str L v) else v)) \<and>
      (\<forall>v. post f = Value v \<and> f = ''created_utc'' \<longrightarrow>
         map_of (extract_post_fields L post) f
           = Some (if py_bool v
                   then (case py_int L v of Inl e \<Rightarrow> CNone | Inr i \<Rightarrow> CInt i) else CNone)))"
proof (intro conjI allI impI)
  show "map fst (extract_post_fields L post) = POST_FIELDS"
    by (rule extract_post_fields_keys)
next
  fix f assume f: "f \<in> set POST_FIELDS"
  show "\<exists>v. map_of (extract_post_fields L post) f = Some v"
    using extract_post_fields_lookup [OF f] by blast
next
  fix f assume f: "f \<in> set POST_FIELDS"
    and bad: "post f = NoAttribute \<or> (\<exists>e. post f = Raises e) \<or> (\<exists>e. extract_field L post f = Inl e)"
  from bad have "(case extract_field L post f of Inl e \<Rightarrow> CNone | Inr v \<Rightarrow> v) = CNone"
    by (auto simp: extract_field_cases)
  with extract_post_fields_lookup [OF f]
  show "map_of (extract_post_fields L post) f = Some CNone" by simp
next
  fix f v assume f: "f \<in> set POST_FIELDS" and "extract_field L post f = Inr v"
  with extract_post_fields_lookup [OF f]
  show "map_of (extract_post_fields L post) f = Some v" by simp
next
  fix f v assume f: "f \<in> set POST_FIELDS"
    and "post f = Value v \<and> f \<noteq> ''author'' \<and> f \<noteq> ''created_utc''"
  then have "extract_field L post f = Inr v" by (simp add: extract_field_cases)
  with extract_post_fields_lookup [OF f]
  show "map_of (extract_post_fields L post) f = Some v" by simp
next
  fix f v assume f: "f \<in> set POST_FIELDS" and "post f = Value v \<and> f = ''author''"
  then have "extract_field L post f = Inr (if py_bool v then CStr (py_str L v) else v)"
    by (auto simp: extract_field_cases)
  with extract_post_fields_lookup [OF f]
  show "map_of (extract_post_fields L post) f = Some (if py_bool v then CStr (py_str L v) else v)"
    by simp
next
  fix f v assume f: "f \<in> set POST_FIELDS" and "post f = Value v \<and> f = ''created_utc''"
  then have "(case extract_field L post f of Inl e \<Rightarrow> CNone | Inr w \<Rightarrow> w)
               = (if py_bool v then (case py_int L v of Inl e \<Rightarrow> CNone | Inr i \<Rightarrow> CInt i)
                  else CNone)"
    by (auto simp: extract_field_cases split: sum.splits if_splits)
  with extract_post_fields_lookup [OF f]
  show "map_of (extract_post_fields L post) f
          = Some (if py_bool v then (case py_int L v of Inl e \<Rightarrow> CNone | Inr i \<Rightarrow> CInt i)
                  else CNone)"
    by simp
qed

text \<open>The example submission: its score fails to load and is stored as \<^verbatim>\<open>None\<close>, its
  creation time is no number and is stored as \<^verbatim>\<open>None\<close>, and its title is kept.\<close>

theorem extract_post_fields_total_witness:
  "''score'' \<in> set POST_FIELDS \<and> ''title'' \<in> set POST_FIELDS \<and>
   ''created_utc'' \<in> set POST_FIELDS \<and>
   example_post ''score'' = Raises (PrawcoreException ''received 404 HTTP response'') \<and>
   example_post ''title'' = Value (CStr ''Test Title'') \<and>
   example_post ''created_utc'' = Value (CStr ''yesterday'') \<and>
   map_of (extract_post_fields example_runtime example_post) ''score'' = Some CNone \<and>
   map_of (extract_post_fields example_runtime example_post) ''title'' = Some (CStr ''Test Title'') \<and>
   map_of (extract_post_fields example_runtime example_post) ''created_utc'' = Some CNone \<and>
   map fst (extract_post_fields example_runtime example_post) = POST_FIELDS"
proof -
  have f: "''score'' \<in> set POST_FIELDS" "''title'' \<in> set POST_FIELDS"
    "''created_utc'' \<in> set POST_FIELDS"
    by (simp_all add: POST_FIELDS_def)
  have s: "example_post ''score'' = Raises (PrawcoreException ''received 404 HTTP response'')"
    by (simp add: example_post_def)
  have t: "example_post ''title'' = Value (CStr ''Test Title'')"
    by (simp add: example_post_def)
  have c: "example_post ''created_utc'' = Value (CStr ''yesterday'')"
    by (simp add: example_post_def)
  have i: "py_bool (CStr ''yesterday'')"
    "py_int example_runtime (CStr ''yesterday'')
       = Inl (ValueError (''invalid literal for int() with base 10: '' @ quoted ''yesterday''))"
    by (simp_all add: example_runtime_def)
  note T = extract_post_fields_total [of example_runtime example_post]
  from T f(1) s
  have 1: "map_of (extract_post_fields example_runtime example_post) ''score'' = Some CNone"
    by blast
  from T f(2) t
  have 2: "map_of (extract_post_fields example_runtime example_post) ''title''
             = Some (CStr ''Test Title'')"
    by simp
  from T f(3) c
  have "map_of (extract_post_fields example_runtime example_post) ''created_utc''
          = Some (if py_bool (CStr ''yesterday'')
                  then (case py_int example_runtime (CStr ''yesterday'') of
                          Inl e \<Rightarrow> CNone | Inr i \<Rightarrow> CInt i) else CNone)"
    by blast
  with i have 3: "map_of (extract_post_fields example_runtime example_post) ''created_utc'' = Some CNone"
    by simp
  from T f s t c 1 2 3 show ?thesis by blast
qed

lemma select_sort_invalid:
  "sort_name \<notin> {''top'', ''hot'', ''new'', ''rising''} \<Longrightarrow>
   select_sort sort_name = Inl (ValueError (''Invalid sort method: '' @ sort_name))"
  by (simp add: select_sort_def)

lemma extract_posts_try_invalid:
  assumes "sort_name \<notin> {''top'', ''hot'', ''new'', ''rising''}"
  shows "extract_posts_try L api subreddit time_filter limit sort_name =
         (Inl (wrap_extraction_error
                 (case subreddit_of api subreddit of
                    Some e \<Rightarrow> e
                  | None \<Rightarrow> ValueError (''Invalid sort method: '' @ sort_name))),
          [SubredditCall subreddit])"
  using select_sort_invalid [OF assms]
  by (simp add: extract_posts_try_def split: option.splits)

lemma wrap_extraction_error_kind: "\<exists>m. wrap_extraction_error e = RedditAPIException m"
  by (simp add: wrap_extraction_error_def)

text \<open>
  C6, as the claim states it, fails: with the sort mode \<^verbatim>\<open>best\<close> on a working client the
  \<^verbatim>\<open>ValueError\<close> is raised inside the \<^verbatim>\<open>try\<close> and leaves \<^verbatim>\<open>extract_posts\<close> as a
  \<^verbatim>\<open>RedditAPIException\<close>, not as an invalid-argument error.
\<close>

theorem extract_posts_invalid_sort_counterexample:
  "extract_posts example_runtime quiet_client True ''python'' ''all'' None ''best''
     = (Inl (RedditAPIException ''Post extraction failed: Invalid sort method: best''), True,
        [SubredditCall ''python''])"
  by (simp add: extract_posts_def extract_posts_try_def select_sort_def quiet_client_def
      wrap_extraction_error_def)

text \<open>
  C6, amended. For a sort mode outside \<^verbatim>\<open>top\<close>, \<^verbatim>\<open>hot\<close>, \<^verbatim>\<open>new\<close>, \<^verbatim>\<open>rising\<close> the call
  fails with a \<^verbatim>\<open>RedditAPIException\<close>, never with a \<^verbatim>\<open>ValueError\<close>, before any listing is
  requested and before any item is fetched; when the client is connected and the
  subreddit handle is obtained, the message is
  \<^verbatim>\<open>Post extraction failed: Invalid sort method: <sort>\<close>.
\<close>

theorem extract_posts_invalid_sort:
  assumes "sort_name \<notin> {''top'', ''hot'', ''new'', ''rising''}"
    and "extract_posts L api has_client subreddit time_filter limit sort_name = (r, has_client', evs)"
  shows "(\<exists>m. r = Inl (RedditAPIException m)) \<and>
         (\<forall>e. r = Inl e \<longrightarrow> \<not> is_ValueError e) \<and>
         (\<forall>s m. ListingCall s m \<notin> set evs) \<and> (\<forall>s. FetchItem s \<notin> set evs) \<and>
         ((has_client \<or> (make_client api = None \<and> user_me api = None)) \<and>
            subreddit_of api subreddit = None \<longrightarrow>
          r = Inl (RedditAPIException (''Post extraction failed: Invalid sort method: '' @ sort_name)))"
proof -
  note t = extract_posts_try_invalid [OF assms(1), of L api subreddit time_filter limit]
  obtain m where m: "wrap_extraction_error
                 (case subreddit_of api subreddit of
                    Some e \<Rightarrow> e
                  | None \<Rightarrow> ValueError (''Invalid sort method: '' @ sort_name)) = RedditAPIException m"
    using wrap_extraction_error_kind by blast
  show ?thesis
    using assms(2) t m
    by (auto simp: extract_posts_def connect_client_def wrap_extraction_error_def
        split: if_splits option.splits prod.splits)
qed

theorem extract_posts_invalid_sort_witness:
  "''best'' \<notin> {''top'', ''hot'', ''new'', ''rising''} \<and>
   subreddit_of quiet_client ''python'' = None \<and>
   extract_posts example_runtime quiet_client True ''python'' ''all'' (Some 10) ''best''
     = (Inl (RedditAPIException ''Post extraction failed: Invalid sort method: best''), True,
        [SubredditCall ''python'']) \<and>
   ListingCall ''python'' Top \<notin> set [SubredditCall ''python''] \<and>
   FetchItem ''python'' \<notin> set [SubredditCall ''python''] \<and>
   \<not> is_ValueError (RedditAPIException ''Post extraction failed: Invalid sort method: best'')"
proof -
  have s: "''best'' \<notin> {''top'', ''hot'', ''new'', ''rising''}" by simp
  have q: "subreddit_of quiet_client ''python'' = None" by (simp add: quiet_client_def)
  obtain r hc evs where
    e: "extract_posts example_runtime quiet_client True ''python'' ''all'' (Some 10) ''best''
          = (r, hc, evs)"
    by (cases "extract_posts example_runtime quiet_client True ''python'' ''all'' (Some 10) ''best''")
      auto
  from extract_posts_invalid_sort [OF s e] q
  have r: "r = Inl (RedditAPIException (''Post extraction failed: Invalid sort method: '' @ ''best''))"
    by blast
  have l: "extract_posts example_runtime quiet_client True ''python'' ''all'' (Some 10) ''best''
             = (Inl (RedditAPIException ''Post extraction failed: Invalid sort method: best''), True,
                [SubredditCall ''python''])"
    using e r
    by (simp add: extract_posts_def extract_posts_try_def select_sort_def quiet_client_def
        wrap_extraction_error_def)
  from s q l show ?thesis by simp
qed

section \<open>Batch aggregator and orchestrator: the empty batch\<close>

lemma extract_loop_no_posts:
  assumes "\<forall>s \<in> set subreddits. \<forall>hc.
             no_posts (fst (extract_posts L api hc s time_filter limit sort_name))"
  shows "fst (extract_loop L api time_filter limit sort_name delay subreddits (all_posts, hc, evs))
           = all_posts"
  using assms
proof (induction subreddits arbitrary: hc evs)
  case Nil
  then show ?case by simp
next
  case (Cons s rest)
  have np: "no_posts (fst (extract_posts L api hc s time_filter limit sort_name))"
    using Cons.prems by simp
  have rest: "\<forall>s \<in> set rest. \<forall>hc.
                no_posts (fst (extract_posts L api hc s time_filter limit sort_name))"
    using Cons.prems by simp
  obtain r hc' calls where e: "extract_posts L api hc s time_filter limit sort_name = (r, hc', calls)"
    by (cases "extract_posts L api hc s time_filter limit sort_name") auto
  show ?case
  proof (cases r)
    case (Inl x)
    then show ?thesis using e Cons.IH [OF rest] by simp
  next
    case (Inr posts)
    with np e have "posts = []" by (simp add: no_posts_def)
    then show ?thesis using e Inr Cons.IH [OF rest] by simp
  qed
qed

lemma extract_posts_batch_empty:
  assumes "\<forall>s \<in> set subreddits. \<forall>hc.
             no_posts (fst (extract_posts L api hc s time_filter limit sort_name))"
  shows "fst (extract_posts_batch L api hc subreddits time_filter limit sort_name delay) = DataFrame0"
proof -
  obtain ps hc' evs where
    l: "extract_loop L api time_filter limit sort_name delay subreddits ([], hc, []) = (ps, hc', evs)"
    by (cases "extract_loop L api time_filter limit sort_name delay subreddits ([], hc, [])") auto
  from extract_loop_no_posts [OF assms, of delay "[]" hc "[]"] l have "ps = []" by simp
  with l show ?thesis by (simp add: extract_posts_batch_def)
qed

text \<open>
  C1. When every partition fails (or returns no post), whatever the state of the client,
  \<^verbatim>\<open>extract_posts_batch\<close> returns the empty DataFrame instead of raising, and \<^verbatim>\<open>run\<close> fails
  with the \<^verbatim>\<open>RedditPipelineException\<close> whose message is
  \<^verbatim>\<open>Pipeline execution failed: No data extracted from Reddit\<close>, which cites
  \<^verbatim>\<open>No data extracted\<close>; the files of the sink are the ones there were before the run, in
  every environment, so nothing has been written.
\<close>

theorem all_partitions_fail:
  assumes "\<forall>s \<in> set subreddits. \<forall>hc.
             no_posts (fst (extract_posts L api hc s time_filter limit sort_name))"
  shows "fst (extract_posts_batch L api has_client subreddits time_filter limit sort_name delay)
           = DataFrame0 \<and>
         empty_frame DataFrame0 \<and>
         fst (run L env api has_client subreddits time_filter limit sort_name output_filename
                do_validate do_transform files)
           = Inl (RedditPipelineException ''Pipeline execution failed: No data extracted from Reddit'') \<and>
         fst (snd (run L env api has_client subreddits time_filter limit sort_name output_filename
                do_validate do_transform files)) = files \<and>
         contains ''Pipeline execution failed: No data extracted from Reddit'' ''No data extracted''"
proof -
  have b: "fst (extract_posts_batch L api has_client subreddits time_filter limit sort_name 1)
             = DataFrame0"
    by (rule extract_posts_batch_empty [OF assms])
  obtain df hc' evs where
    e: "extract_posts_batch L api has_client subreddits time_filter limit sort_name 1 = (df, hc', evs)"
    by (cases "extract_posts_batch L api has_client subreddits time_filter limit sort_name 1") auto
  with b have df: "df = DataFrame0" by simp
  have emp: "empty_frame DataFrame0" by (simp add: empty_frame_def DataFrame0_def)
  have c: "contains ''Pipeline execution failed: No data extracted from Reddit'' ''No data extracted''"
    by (simp add: contains_def)
  show ?thesis
    using extract_posts_batch_empty [OF assms] e df emp c by (simp add: run_def)
qed

text \<open>Two subreddits that cannot be reached, with validation and transformation on and a
  sink that would accept the file.\<close>

theorem all_partitions_fail_witness:
  "fst (extract_posts_batch example_runtime failing_client True [''python'', ''datascience'']
          ''all'' None ''top'' 1) = DataFrame0 \<and>
   fst (run example_runtime example_environment failing_client True [''python'', ''datascience'']
          ''all'' None ''top'' None True True [])
     = Inl (RedditPipelineException ''Pipeline execution failed: No data extracted from Reddit'') \<and>
   fst (snd (run example_runtime example_environment failing_client True
               [''python'', ''datascience''] ''all'' None ''top'' None True True [])) = []"
proof -
  have h: "\<forall>s \<in> set [''python'', ''datascience'']. \<forall>hc.
             no_posts (fst (extract_posts example_runtime failing_client hc s ''all'' None ''top''))"
    by (simp add: no_posts_def extract_posts_def extract_posts_try_def connect_client_def
        failing_client_def)
  from all_partitions_fail [OF h, of True 1 example_environment None True True "[]"]
  show ?thesis by blast
qed

section \<open>Validator: validity and the null-percentage thresholds\<close>

text \<open>
  C2. Every result that \<^verbatim>\<open>validate\<close> produces, and every result of \<^verbatim>\<open>validate_schema\<close>,
  has \<^verbatim>\<open>is_valid\<close> true exactly when its list of errors is empty; the warnings have no
  part in it.
\<close>

theorem validation_result_valid_iff:
  "(validate L cfg now df = Inr r \<longrightarrow> is_valid r = (errors r = [])) \<and>
   is_valid (validate_schema df schema) = (errors (validate_schema df schema) = [])"
  by (auto simp: validate_def validate_schema_def Let_def split: prod.splits sum.splits)

lemma validate_valid_frame:
  "validate example_runtime default_validator 0 valid_frame = Inr
     \<lparr>is_valid = True, errors = [], warnings = [OneSubreddit],
      stats =
        [(''total_rows'', StatInt 3), (''total_columns'', StatInt 5),
         (''duplicate_ids'', StatInt 0),
         (''null_percentages'',
          StatPercentages
           [(''id'', Some 0), (''title'', Some 0), (''subreddit'', Some 0),
            (''score'', Some 0), (''num_comments'', Some 0)]),
         (''negative_scores'', StatInt 0),
         (''subreddit_distribution'', StatCounts [(CStr ''test'', 3)])]\<rparr>"
  by code_simp

text \<open>The frame of the validator's test of valid data: a warning, no error, valid.\<close>

theorem validation_result_valid_iff_witness:
  "\<exists>r. validate example_runtime default_validator 0 valid_frame = Inr r \<and>
        warnings r = [OneSubreddit] \<and> errors r = [] \<and> is_valid r"
proof -
  let ?r = "\<lparr>is_valid = True, errors = [], warnings = [OneSubreddit],
      stats =
        [(''total_rows'', StatInt 3), (''total_columns'', StatInt 5),
         (''duplicate_ids'', StatInt 0),
         (''null_percentages'',
          StatPercentages
           [(''id'', Some 0), (''title'', Some 0), (''subreddit'', Some 0),
            (''score'', Some 0), (''num_comments'', Some 0)]),
         (''negative_scores'', StatInt 0),
         (''subreddit_distribution'', StatCounts [(CStr ''test'', 3)])]\<rparr>"
  have v: "validate example_runtime default_validator 0 valid_frame = Inr ?r"
    by (rule validate_valid_frame)
  have e: "errors ?r = []" by simp
  from validation_result_valid_iff [of example_runtime default_validator 0 valid_frame ?r "[]"] v e
  have "is_valid ?r" by blast
  with v show ?thesis by (intro exI [where x = ?r]) simp
qed









section \<open>Validator: a dataset without a title column\<close>

lemma cmp_cell_comparable: "is_comparable v \<Longrightarrow> \<exists>b. cmp_cell p v = Some b"
  by (cases v) auto

lemma cmp_cells_comparable: "list_all is_comparable vs \<Longrightarrow> \<exists>bs. cmp_cells p vs = Some bs"
proof (induction vs)
  case Nil
  then show ?case by simp
next
  case (Cons v vs)
  then obtain b bs where "cmp_cell p v = Some b" and "cmp_cells p vs = Some bs"
    using cmp_cell_comparable [of v p] by auto
  then show ?case by simp
qed

lemma compare_column_returns:
  "name \<in> set (columns df) \<Longrightarrow> comparable_column df name \<Longrightarrow>
   \<exists>bs. compare_column L p (col df name) = Inr bs"
  using cmp_cells_comparable [of "cells (col df name)" p]
  by (auto simp: comparable_column_def compare_column_def)

lemma validate_business_rules_returns:
  assumes "comparable_columns df"
  shows "\<exists>es ws st. validate_business_rules L now df = Inr (es, ws, st)"
proof -
  have s: "\<exists>x. business_score L df = Inr x"
  proof (cases "''score'' \<in> set (columns df)")
    case True
    with assms obtain bs where "compare_column L (\<lambda>x. x < 0) (col df ''score'') = Inr bs"
      using compare_column_returns [of "''score''" df L "\<lambda>x. x < 0"]
      by (auto simp: comparable_columns_def)
    with True show ?thesis by (simp add: business_score_def Let_def)
  next
    case False
    then show ?thesis by (simp add: business_score_def)
  qed
  have c: "\<exists>x. business_comments L df = Inr x"
  proof (cases "''num_comments'' \<in> set (columns df)")
    case True
    with assms obtain bs where "compare_column L (\<lambda>x. x < 0) (col df ''num_comments'') = Inr bs"
      using compare_column_returns [of "''num_comments''" df L "\<lambda>x. x < 0"]
      by (auto simp: comparable_columns_def)
    with True show ?thesis by (simp add: business_comments_def Let_def)
  next
    case False
    then show ?thesis by (simp add: business_comments_def)
  qed
  have r: "\<exists>x. business_ratio L df = Inr x"
  proof (cases "''upvote_ratio'' \<in> set (columns df)")
    case True
    with assms obtain bs where 1: "compare_column L (\<lambda>x. x < 0) (col df ''upvote_ratio'') = Inr bs"
      using compare_column_returns [of "''upvote_ratio''" df L "\<lambda>x. x < 0"]
      by (auto simp: comparable_columns_def)
    from True assms obtain cs where 2: "compare_column L (\<lambda>x. x > 1) (col df ''upvote_ratio'') = Inr cs"
      using compare_column_returns [of "''upvote_ratio''" df L "\<lambda>x. x > 1"]
      by (auto simp: comparable_columns_def)
    from True 1 2 show ?thesis by (simp add: business_ratio_def Let_def)
  next
    case False
    then show ?thesis by (simp add: business_ratio_def)
  qed
  from s c r show ?thesis
    by (auto simp: validate_business_rules_def split: prod.splits)
qed

lemma structure_missing_title:
  assumes "\<not> empty_frame df" and "''title'' \<notin> set (columns df)"
  shows "\<exists>cs. MissingRequiredColumns cs \<in> set (fst (validate_structure df)) \<and> ''title'' \<in> set cs"
  using assms
  by (simp add: validate_structure_def Let_def REQUIRED_COLUMNS_def)

lemma contains_prefix: "contains (sub @ rest) sub"
  unfolding contains_def list_ex_iff by (rule bexI [where x = 0]) simp_all

text \<open>
  C8, as the claim states it, fails: the empty DataFrame has no \<^verbatim>\<open>title\<close> column, and the
  structure tier returns at its emptiness check before it looks at the columns, so the
  result is invalid with the errors \<^verbatim>\<open>DataFrame is empty\<close> and
  \<^verbatim>\<open>DataFrame has 0 rows, minimum required is 1\<close>; none mentions missing columns.
\<close>

theorem validate_missing_title_counterexample:
  "''title'' \<notin> set (columns DataFrame0) \<and>
   validate example_runtime default_validator 0 DataFrame0
     = Inr \<lparr>is_valid = False, errors = [DataFrameEmpty, TooFewRows 0 1], warnings = [],
            stats = [(''null_percentages'', StatPercentages [])]\<rparr>"
  by code_simp

text \<open>
  C8, amended. For every dataset that is not empty and has no \<^verbatim>\<open>title\<close> column, and
  whose \<^verbatim>\<open>score\<close>, \<^verbatim>\<open>num_comments\<close> and \<^verbatim>\<open>upvote_ratio\<close> columns, where present, can be
  compared with a number (otherwise \<^verbatim>\<open>validate\<close> raises), \<^verbatim>\<open>validate\<close> returns a result
  with \<^verbatim>\<open>is_valid\<close> false and an error \<^verbatim>\<open>Missing required columns: [...]\<close> that lists
  \<^verbatim>\<open>title\<close>.
\<close>

theorem validate_missing_title:
  assumes "\<not> empty_frame df" and "''title'' \<notin> set (columns df)" and "comparable_columns df"
  shows "\<exists>r. validate L cfg now df = Inr r \<and> \<not> is_valid r \<and>
           (\<exists>cs. MissingRequiredColumns cs \<in> set (errors r) \<and> ''title'' \<in> set cs \<and>
                 contains (message_text L (MissingRequiredColumns cs)) ''Missing required columns'')"
proof -
  obtain es ws st where b: "validate_business_rules L now df = Inr (es, ws, st)"
    using validate_business_rules_returns [OF assms(3)] by blast
  obtain cs where m: "MissingRequiredColumns cs \<in> set (fst (validate_structure df))"
    and t: "''title'' \<in> set cs"
    using structure_missing_title [OF assms(1,2)] by blast
  have c: "contains (message_text L (MissingRequiredColumns cs)) ''Missing required columns''"
    using contains_prefix [of "''Missing required columns''" "'': '' @ list_repr L cs"] by simp
  obtain se sw ss where s: "validate_structure df = (se, sw, ss)"
    by (cases "validate_structure df") auto
  obtain qe qw qs where q: "validate_quality L cfg df = (qe, qw, qs)"
    by (cases "validate_quality L cfg df") auto
  from m s have "MissingRequiredColumns cs \<in> set se" by simp
  with b s q t c show ?thesis
    by (auto simp: validate_def Let_def)
qed

theorem validate_missing_title_witness:
  "\<not> empty_frame untitled_frame \<and> ''title'' \<notin> set (columns untitled_frame) \<and>
   (\<exists>r. validate example_runtime default_validator 0 untitled_frame = Inr r \<and> \<not> is_valid r \<and>
      (\<exists>cs. MissingRequiredColumns cs \<in> set (errors r) \<and> ''title'' \<in> set cs))"
proof -
  have e: "\<not> empty_frame untitled_frame" by (simp add: empty_frame_def untitled_frame_def)
  have t: "''title'' \<notin> set (columns untitled_frame)" by (simp add: columns_def untitled_frame_def)
  have c: "comparable_columns untitled_frame"
    by (simp add: comparable_columns_def comparable_column_def columns_def col_def untitled_frame_def)
  from validate_missing_title [OF e t c, of example_runtime default_validator 0] e t
  show ?thesis by blast
qed

section \<open>Validator: dependence on the clock\<close>










section \<open>Transformer: deduplication\<close>

lemma remove_duplicates_id:
  assumes "''id'' \<in> set (columns df)"
  shows "cells (col (remove_duplicates df) ''id'')
           = select (map Not (duplicated [] (map py_key (cells (col df ''id''))))) (cells (col df ''id''))"
  using assms col_filter_rows [OF assms] by (simp add: remove_duplicates_def)

lemma remove_duplicates_idem: "remove_duplicates (remove_duplicates df) = remove_duplicates df"
proof (cases "''id'' \<in> set (columns df)")
  case False
  then show ?thesis by (simp add: remove_duplicates_def)
next
  case True
  let ?ids = "cells (col df ''id'')"
  let ?keys = "map py_key ?ids"
  let ?keep = "map Not (duplicated [] ?keys)"
  let ?df = "filter_rows ?keep df"
  have ids': "cells (col ?df ''id'') = select ?keep ?ids"
    using col_filter_rows [OF True] by simp
  have n: "length (select ?keep ?keys) = count_true ?keep"
    by (rule length_select) simp
  have "duplicated [] (select ?keep ?keys) = replicate (length (select ?keep ?keys)) False"
    by (rule duplicated_distinct) (simp_all add: kept_distinct)
  then have keep': "map Not (duplicated [] (map py_key (cells (col ?df ''id''))))
                      = replicate (count_true ?keep) True"
    unfolding ids' select_map [symmetric] using n by simp
  have "filter_rows (replicate (count_true ?keep) True) ?df = ?df"
    by (auto simp: filter_rows_def select_all length_select_le)
  with True keep' show ?thesis by (simp add: remove_duplicates_def)
qed

lemma remove_duplicates_cols:
  assumes "wf_frame df" and "''id'' \<in> set (columns df)"
  shows "cols (remove_duplicates df)
           = map (\<lambda>(n, c). (n, c\<lparr>cells := nths (cells c)
                                  (first_occurrences (map py_key (cells (col df ''id''))))\<rparr>))
               (cols df)"
proof -
  let ?keys = "map py_key (cells (col df ''id''))"
  from assms(2) obtain c where c: "map_of (cols df) ''id'' = Some c"
    using in_columns_map_of by blast
  then have "(''id'', c) \<in> set (cols df)" by (rule map_of_SomeD)
  with assms(1) have l: "length (cells (col df ''id'')) = nrows df"
    using c by (auto simp: wf_frame_def list_all_iff col_def)
  have "\<And>n x. (n, x) \<in> set (cols df) \<Longrightarrow>
          select (map Not (duplicated [] ?keys)) (cells x) = nths (cells x) (first_occurrences ?keys)"
  proof -
    fix n x assume "(n, x) \<in> set (cols df)"
    with assms(1) l have "length (cells x) = length ?keys"
      by (auto simp: wf_frame_def list_all_iff)
    from select_nths [OF this, of "[]"]
    show "select (map Not (duplicated [] ?keys)) (cells x) = nths (cells x) (first_occurrences ?keys)"
      by (simp add: first_occurrences_def)
  qed
  then show ?thesis
    using assms(2) by (auto simp: remove_duplicates_def filter_rows_def)
qed

lemma remove_duplicates_three:
  assumes "''id'' \<in> set (columns df)" and "cells (col df ''id'') = [a, a', b]"
    and "py_key a = py_key a'" and "py_key a \<noteq> py_key b"
  shows "nrows (remove_duplicates df) = 2 \<and> cells (col (remove_duplicates df) ''id'') = [a, b]"
proof -
  have keep: "map Not (duplicated [] (map py_key [a, a', b])) = [True, False, True]"
    using assms(3,4) by auto
  have "nrows (remove_duplicates df) = 2"
    unfolding remove_duplicates_def assms(2) keep using assms(1) by (simp add: filter_rows_def)
  moreover have "cells (col (remove_duplicates df) ''id'') = [a, b]"
    unfolding remove_duplicates_id [OF assms(1)] assms(2) keep by simp
  ultimately show ?thesis by blast
qed

lemma remove_duplicates_count:
  assumes "''id'' \<in> set (columns df)"
  shows "nrows (remove_duplicates df) = card (set (map py_key (cells (col df ''id''))))"
proof -
  let ?keys = "map py_key (cells (col df ''id''))"
  let ?keep = "map Not (duplicated [] ?keys)"
  have "count_true ?keep = length (select ?keep ?keys)"
    by (rule length_select [symmetric]) simp
  also have "\<dots> = card (set (select ?keep ?keys))"
    using kept_distinct [of "[]" ?keys] by (simp add: distinct_card)
  also have "\<dots> = card (set ?keys)" by (simp add: kept_set)
  finally show ?thesis using assms by (simp add: remove_duplicates_def filter_rows_def)
qed

lemma remove_duplicates_ids:
  assumes "''id'' \<in> set (columns df)"
  shows "cells (col (remove_duplicates df) ''id'')
           = nths (cells (col df ''id'')) (first_occurrences (map py_key (cells (col df ''id''))))"
proof -
  let ?ids = "cells (col df ''id'')"
  have "length ?ids = length (map py_key ?ids)" by simp
  from select_nths [OF this, of "[]"] show ?thesis
    unfolding remove_duplicates_id [OF assms] by (simp add: first_occurrences_def)
qed

section \<open>Transformer: the ids through the whole transformation\<close>

lemma clean_data_ids:
  assumes al: "aligned df1"
    and ids: "\<not> list_ex is_null (cells (col df1 ''id''))"
    and t: "''title'' \<in> set (columns df1) \<longrightarrow>
              \<not> list_ex is_null (cells (col df1 ''title'')) \<and> dtype (col df1 ''title'') = ObjectT \<and>
              (\<exists>s. CStr s \<in> set (cells (col df1 ''title'')) \<and> strip s \<noteq> [])"
    and x: "''selftext'' \<in> set (columns df1) \<longrightarrow>
              dtype (col df1 ''selftext'') = ObjectT \<and>
              (\<exists>s. CStr s \<in> set (cells (col df1 ''selftext'')) \<and> strip s \<noteq> [])"
  shows "\<exists>df2. clean_data df1 = Inr df2 \<and> nrows df2 = nrows df1 \<and>
           col df2 ''id'' = col df1 ''id'' \<and> set (columns df2) = set (columns df1) \<and>
           (''title'' \<in> set (columns df2) \<longrightarrow> has_str_accessor (col df2 ''title'')) \<and>
           (''selftext'' \<in> set (columns df2) \<longrightarrow> has_str_accessor (col df2 ''selftext''))"
proof -
  let ?P = "\<lambda>c. dtype c = ObjectT \<and> (\<exists>s. CStr s \<in> set (cells c) \<and> strip s \<noteq> [])"
  let ?Q = "\<lambda>c. dtype c = ObjectT \<and> (\<exists>s. CStr s \<in> set (cells c))"
  have d1: "drop_missing ''id'' df1 = df1"
    by (rule drop_missing_none [OF al]) (simp add: ids)
  have d2: "drop_missing ''title'' df1 = df1"
    by (rule drop_missing_none [OF al]) (simp add: t)
  have f: "\<And>c. ?P c \<Longrightarrow> \<exists>c'. clean_text c = Inr c' \<and> ?Q c'"
    using clean_text_keeps by blast
  have p: "\<forall>n \<in> set [''title'', ''selftext'']. n \<in> set (columns df1) \<longrightarrow> ?P (col df1 n)"
    using t x by simp
  have "distinct [''title'', ''selftext'']" by simp
  from for_columns_try_ok [of ?P clean_text ?Q, OF f this p]
  obtain df' where r: "for_columns_try clean_text [''title'', ''selftext''] df1 = Inr df'"
    "nrows df' = nrows df1" "set (columns df') = set (columns df1)"
    "\<forall>m. m \<notin> set [''title'', ''selftext''] \<longrightarrow> col df' m = col df1 m"
    "\<forall>n \<in> set [''title'', ''selftext'']. n \<in> set (columns df1) \<longrightarrow> ?Q (col df' n)"
    by blast
  let ?df2 = "for_columns clean_author [''author''] df'"
  have 1: "clean_data df1 = Inr ?df2" unfolding clean_data_def d1 d2 r(1) by (simp only: sum.case)
  have 2: "nrows ?df2 = nrows df1" by (simp only: nrows_for_columns r(2))
  have o: "col ?df2 ''id'' = col df' ''id''" "col ?df2 ''title'' = col df' ''title''"
    "col ?df2 ''selftext'' = col df' ''selftext''"
    by (rule for_columns_other, simp)+
  have 3: "col ?df2 ''id'' = col df1 ''id''" unfolding o using r(4) by simp
  have 4: "set (columns ?df2) = set (columns df1)" by (simp only: columns_for_columns r(3))
  have 5: "''title'' \<in> set (columns ?df2) \<longrightarrow> has_str_accessor (col ?df2 ''title'')"
    unfolding 4 o using r(5) by (auto intro: has_str_accessor_str)
  have 6: "''selftext'' \<in> set (columns ?df2) \<longrightarrow> has_str_accessor (col ?df2 ''selftext'')"
    unfolding 4 o using r(5) by (auto intro: has_str_accessor_str)
  from 1 2 3 4 5 6 show ?thesis by blast
qed

lemma engineer_features_ids:
  assumes t: "''title'' \<in> set (columns df2) \<longrightarrow> has_str_accessor (col df2 ''title'')"
    and x: "''selftext'' \<in> set (columns df2) \<longrightarrow> has_str_accessor (col df2 ''selftext'')"
  shows "\<exists>df3. engineer_features df2 = Inr df3 \<and> nrows df3 = nrows df2 \<and>
           col df3 ''id'' = col df2 ''id'' \<and>
           (''id'' \<in> set (columns df3) \<longleftrightarrow> ''id'' \<in> set (columns df2))"
proof -
  from text_features_ok [OF t] obtain dfa where a: "text_features ''title'' df2 = Inr dfa"
    "nrows dfa = nrows df2"
    "\<forall>m. m \<noteq> ''title'' @ ''_length'' \<and> m \<noteq> ''title'' @ ''_word_count'' \<longrightarrow>
         col dfa m = col df2 m \<and> (m \<in> set (columns dfa) \<longleftrightarrow> m \<in> set (columns df2))"
    by blast
  from a(3) have ai: "col dfa ''id'' = col df2 ''id''"
    "''id'' \<in> set (columns dfa) \<longleftrightarrow> ''id'' \<in> set (columns df2)"
    and ax: "col dfa ''selftext'' = col df2 ''selftext''"
    "''selftext'' \<in> set (columns dfa) \<longleftrightarrow> ''selftext'' \<in> set (columns df2)"
    by simp_all
  from x ax have "''selftext'' \<in> set (columns dfa) \<longrightarrow> has_str_accessor (col dfa ''selftext'')"
    by simp
  from text_features_ok [OF this] obtain dfb where b: "text_features ''selftext'' dfa = Inr dfb"
    "nrows dfb = nrows dfa"
    "\<forall>m. m \<noteq> ''selftext'' @ ''_length'' \<and> m \<noteq> ''selftext'' @ ''_word_count'' \<longrightarrow>
         col dfb m = col dfa m \<and> (m \<in> set (columns dfb) \<longleftrightarrow> m \<in> set (columns dfa))"
    by blast
  from b(3) have bi: "col dfb ''id'' = col dfa ''id''"
    "''id'' \<in> set (columns dfb) \<longleftrightarrow> ''id'' \<in> set (columns dfa)"
    by simp_all
  have s: "col (score_features dfb) ''id'' = col dfb ''id'' \<and>
           nrows (score_features dfb) = nrows dfb \<and>
           (''id'' \<in> set (columns (score_features dfb)) \<longleftrightarrow> ''id'' \<in> set (columns dfb))"
    by (rule score_features_other) simp_all
  have "engineer_features df2 = Inr (score_features dfb)"
    by (simp add: engineer_features_def a(1) b(1))
  with s a(2) b(2) ai bi show ?thesis by simp
qed

lemma transform_reddit_posts_ids:
  assumes al: "aligned df" and n: "0 < nrows df"
    and i: "''id'' \<in> set (columns df)"
    and ids: "\<forall>v \<in> set (cells (col df ''id'')). py_str L v \<noteq> ''nan''"
    and t: "''title'' \<in> set (columns df) \<longrightarrow>
              (\<forall>v \<in> set (cells (col df ''title'')). py_str L v \<noteq> ''nan'') \<and>
              (\<exists>v \<in> set (cells (col df ''title'')). strip (py_str L v) \<noteq> [])"
    and x: "''selftext'' \<in> set (columns df) \<longrightarrow>
              (\<exists>v \<in> set (cells (col df ''selftext'')).
                 py_str L v \<noteq> ''nan'' \<and> strip (py_str L v) \<noteq> [])"
  shows "\<exists>df3. transform_reddit_posts L df = Inr (remove_duplicates df3) \<and>
           ''id'' \<in> set (columns df3) \<and>
           cells (col df3 ''id'') = map (\<lambda>v. CStr (py_str L v)) (cells (col df ''id''))"
proof -
  let ?df1 = "convert_types L df"
  from i have "cols df \<noteq> []" by (auto simp: columns_def)
  with n have ne: "\<not> empty_frame df" by (simp add: empty_frame_def)
  have a1: "aligned ?df1" by (rule aligned_convert_types [OF al])
  have i1: "''id'' \<in> set (columns ?df1)" using i by (simp add: columns_convert_types)
  have "col ?df1 ''id'' = astype_str L (col df ''id'')"
    by (rule string_column_converted [OF _ i]) (simp add: string_columns_def)
  with astype_str_plain [OF ids]
  have c1: "col ?df1 ''id'' = \<lparr>dtype = ObjectT, cells = map (\<lambda>v. CStr (py_str L v)) (cells (col df ''id''))\<rparr>"
    by simp
  then have ids1: "\<not> list_ex is_null (cells (col ?df1 ''id''))"
    by (auto simp: list_ex_iff)
  have t1: "''title'' \<in> set (columns ?df1) \<longrightarrow>
              \<not> list_ex is_null (cells (col ?df1 ''title'')) \<and> dtype (col ?df1 ''title'') = ObjectT \<and>
              (\<exists>s. CStr s \<in> set (cells (col ?df1 ''title'')) \<and> strip s \<noteq> [])"
  proof
    assume "''title'' \<in> set (columns ?df1)"
    then have m: "''title'' \<in> set (columns df)" by (simp add: columns_convert_types)
    with t have p: "\<forall>v \<in> set (cells (col df ''title'')). py_str L v \<noteq> ''nan''"
      and q: "\<exists>v \<in> set (cells (col df ''title'')). strip (py_str L v) \<noteq> []" by simp_all
    have "col ?df1 ''title'' = astype_str L (col df ''title'')"
      by (rule string_column_converted [OF _ m]) (simp add: string_columns_def)
    with astype_str_plain [OF p]
    have c: "col ?df1 ''title''
               = \<lparr>dtype = ObjectT, cells = map (\<lambda>v. CStr (py_str L v)) (cells (col df ''title''))\<rparr>"
      by simp
    from q obtain v where "v \<in> set (cells (col df ''title''))" "strip (py_str L v) \<noteq> []" by blast
    then have "\<exists>s. CStr s \<in> set (cells (col ?df1 ''title'')) \<and> strip s \<noteq> []"
      unfolding c by (intro exI [of _ "py_str L v"]) auto
    moreover have "\<not> list_ex is_null (cells (col ?df1 ''title''))"
      unfolding c by (auto simp: list_ex_iff)
    ultimately show "\<not> list_ex is_null (cells (col ?df1 ''title'')) \<and>
        dtype (col ?df1 ''title'') = ObjectT \<and>
        (\<exists>s. CStr s \<in> set (cells (col ?df1 ''title'')) \<and> strip s \<noteq> [])"
      using c by simp
  qed
  have x1: "''selftext'' \<in> set (columns ?df1) \<longrightarrow>
              dtype (col ?df1 ''selftext'') = ObjectT \<and>
              (\<exists>s. CStr s \<in> set (cells (col ?df1 ''selftext'')) \<and> strip s \<noteq> [])"
  proof
    assume "''selftext'' \<in> set (columns ?df1)"
    then have m: "''selftext'' \<in> set (columns df)" by (simp add: columns_convert_types)
    with x obtain v where v: "v \<in> set (cells (col df ''selftext''))" "py_str L v \<noteq> ''nan''"
      "strip (py_str L v) \<noteq> []" by blast
    have c: "col ?df1 ''selftext'' = astype_str L (col df ''selftext'')"
      by (rule string_column_converted [OF _ m]) (simp add: string_columns_def)
    from astype_str_keeps [OF v(1,2)] v(3)
    show "dtype (col ?df1 ''selftext'') = ObjectT \<and>
          (\<exists>s. CStr s \<in> set (cells (col ?df1 ''selftext'')) \<and> strip s \<noteq> [])"
      unfolding c by blast
  qed
  from clean_data_ids [OF a1 ids1 t1 x1] obtain df2 where 2: "clean_data ?df1 = Inr df2"
    "col df2 ''id'' = col ?df1 ''id''" "set (columns df2) = set (columns ?df1)"
    "''title'' \<in> set (columns df2) \<longrightarrow> has_str_accessor (col df2 ''title'')"
    "''selftext'' \<in> set (columns df2) \<longrightarrow> has_str_accessor (col df2 ''selftext'')"
    by blast
  from engineer_features_ids [OF 2(4,5)] obtain df3 where 3: "engineer_features df2 = Inr df3"
    "col df3 ''id'' = col df2 ''id''" "''id'' \<in> set (columns df3) \<longleftrightarrow> ''id'' \<in> set (columns df2)"
    by blast
  have "transform_reddit_posts L df = Inr (remove_duplicates df3)"
    using ne by (simp add: transform_reddit_posts_def 2(1) 3(1))
  moreover have "''id'' \<in> set (columns df3)" using 3(3) 2(3) i1 by simp
  moreover have "cells (col df3 ''id'') = map (\<lambda>v. CStr (py_str L v)) (cells (col df ''id''))"
    using 3(2) 2(2) c1 by simp
  ultimately show ?thesis by blast
qed

text \<open>
  C9, as the claim states it, fails for the whole transformation: of three rows with the
  ids \<^verbatim>\<open>1, 1, 2\<close>, the row with the id \<^verbatim>\<open>2\<close> has no title, so the cleaning stage removes
  it before the deduplication, and one row with one id is left.
\<close>

theorem remove_duplicates_keeps_first_counterexample:
  "nrows partly_titled_frame = 3 \<and>
   cells (col partly_titled_frame ''id'') = [CStr ''1'', CStr ''1'', CStr ''2''] \<and>
   transform_reddit_posts example_runtime partly_titled_frame
     = Inr \<lparr>nrows = 1,
            cols = [(''id'', \<lparr>dtype = ObjectT, cells = [CStr ''1'']\<rparr>),
                    (''title'', \<lparr>dtype = ObjectT, cells = [CStr ''Title 1'']\<rparr>),
                    (''title_length'', \<lparr>dtype = Int64T, cells = [CInt 7]\<rparr>),
                    (''title_word_count'', \<lparr>dtype = Int64T, cells = [CInt 2]\<rparr>)]\<rparr>"
  by code_simp

text \<open>
  C9, amended. Two ids are the same when Python's \<^verbatim>\<open>==\<close> says so, which \<open>py_key\<close>
  decides. The deduplication stage keeps, in every column, exactly the rows that hold
  the first occurrence of their id, in their original order; the ids that remain are
  distinct and are all the ids there were, and there are as many rows as ids. Applying
  the stage twice gives what applying it once gives. Three rows of which the first two
  have the same id and the third another become the first and the third row.

  The whole transformation compares the ids by their string form, \<^verbatim>\<open>str(id)\<close>, and it
  removes a row whose id or title is missing before it removes duplicates. When no id
  and no title has the string form \<^verbatim>\<open>nan\<close>, some title is not blank, and some text of
  a \<^verbatim>\<open>selftext\<close> column is neither \<^verbatim>\<open>nan\<close> nor blank, it returns one row for every
  string form of an id, with the ids at their first occurrences, in order; so three
  rows of which the first two ids have one string form and the third another give two
  rows with these two ids.
\<close>

theorem remove_duplicates_keeps_first:
  "(wf_frame df \<and> ''id'' \<in> set (columns df) \<longrightarrow>
      cols (remove_duplicates df)
        = map (\<lambda>(n, c). (n, c\<lparr>cells := nths (cells c)
                               (first_occurrences (map py_key (cells (col df ''id''))))\<rparr>))
            (cols df)) \<and>
   (''id'' \<in> set (columns df) \<longrightarrow>
      distinct (map py_key (cells (col (remove_duplicates df) ''id''))) \<and>
      set (map py_key (cells (col (remove_duplicates df) ''id'')))
        = set (map py_key (cells (col df ''id''))) \<and>
      nrows (remove_duplicates df) = card (set (map py_key (cells (col df ''id'')))) \<and>
      nrows (remove_duplicates df) = length (cells (col (remove_duplicates df) ''id''))) \<and>
   remove_duplicates (remove_duplicates df) = remove_duplicates df \<and>
   (''id'' \<in> set (columns df) \<and> cells (col df ''id'') = [a, a', b] \<and>
    py_key a = py_key a' \<and> py_key a \<noteq> py_key b \<longrightarrow>
      nrows (remove_duplicates df) = 2 \<and> cells (col (remove_duplicates df) ''id'') = [a, b]) \<and>
   (aligned df \<and> 0 < nrows df \<and> ''id'' \<in> set (columns df) \<and>
    (\<forall>v \<in> set (cells (col df ''id'')). py_str L v \<noteq> ''nan'') \<and>
    (''title'' \<in> set (columns df) \<longrightarrow>
       (\<forall>v \<in> set (cells (col df ''title'')). py_str L v \<noteq> ''nan'') \<and>
       (\<exists>v \<in> set (cells (col df ''title'')). strip (py_str L v) \<noteq> [])) \<and>
    (''selftext'' \<in> set (columns df) \<longrightarrow>
       (\<exists>v \<in> set (cells (col df ''selftext'')).
          py_str L v \<noteq> ''nan'' \<and> strip (py_str L v) \<noteq> [])) \<longrightarrow>
      (\<exists>df'. transform_reddit_posts L df = Inr df' \<and>
             nrows df' = card (py_str L ` set (cells (col df ''id''))) \<and>
             cells (col df' ''id'')
               = nths (map (\<lambda>v. CStr (py_str L v)) (cells (col df ''id'')))
                   (first_occurrences (map (py_str L) (cells (col df ''id'')))) \<and>
             (cells (col df ''id'') = [a, a', b] \<and> py_str L a = py_str L a' \<and>
              py_str L a \<noteq> py_str L b \<longrightarrow>
                nrows df' = 2 \<and> cells (col df' ''id'') = [CStr (py_str L a), CStr (py_str L b)])))"
proof (intro conjI impI)
  assume "wf_frame df \<and> ''id'' \<in> set (columns df)"
  then show "cols (remove_duplicates df)
        = map (\<lambda>(n, c). (n, c\<lparr>cells := nths (cells c)
                               (first_occurrences (map py_key (cells (col df ''id''))))\<rparr>))
            (cols df)"
    using remove_duplicates_cols by blast
next
  assume i: "''id'' \<in> set (columns df)"
  let ?ids = "cells (col df ''id'')"
  let ?keep = "map Not (duplicated [] (map py_key ?ids))"
  have k: "map py_key (cells (col (remove_duplicates df) ''id'')) = select ?keep (map py_key ?ids)"
    unfolding remove_duplicates_id [OF i] by (simp only: select_map)
  show "distinct (map py_key (cells (col (remove_duplicates df) ''id'')))"
    unfolding k by (rule kept_distinct)
  show "set (map py_key (cells (col (remove_duplicates df) ''id''))) = set (map py_key ?ids)"
    unfolding k by (simp add: kept_set)
  show c: "nrows (remove_duplicates df) = card (set (map py_key ?ids))"
    by (rule remove_duplicates_count [OF i])
  have "length (select ?keep ?ids) = count_true ?keep"
    by (rule length_select) simp
  then show "nrows (remove_duplicates df) = length (cells (col (remove_duplicates df) ''id''))"
    unfolding remove_duplicates_id [OF i] using i by (simp add: remove_duplicates_def filter_rows_def)
next
  show "remove_duplicates (remove_duplicates df) = remove_duplicates df"
    by (rule remove_duplicates_idem)
next
  assume h: "''id'' \<in> set (columns df) \<and> cells (col df ''id'') = [a, a', b] \<and>
             py_key a = py_key a' \<and> py_key a \<noteq> py_key b"
  then have "''id'' \<in> set (columns df)" "cells (col df ''id'') = [a, a', b]"
    "py_key a = py_key a'" "py_key a \<noteq> py_key b"
    by blast+
  then have "nrows (remove_duplicates df) = 2 \<and> cells (col (remove_duplicates df) ''id'') = [a, b]"
    by (rule remove_duplicates_three)
  then show "nrows (remove_duplicates df) = 2" "cells (col (remove_duplicates df) ''id'') = [a, b]"
    by simp_all
next
  assume h: "aligned df \<and> 0 < nrows df \<and> ''id'' \<in> set (columns df) \<and>
    (\<forall>v \<in> set (cells (col df ''id'')). py_str L v \<noteq> ''nan'') \<and>
    (''title'' \<in> set (columns df) \<longrightarrow>
       (\<forall>v \<in> set (cells (col df ''title'')). py_str L v \<noteq> ''nan'') \<and>
       (\<exists>v \<in> set (cells (col df ''title'')). strip (py_str L v) \<noteq> [])) \<and>
    (''selftext'' \<in> set (columns df) \<longrightarrow>
       (\<exists>v \<in> set (cells (col df ''selftext'')).
          py_str L v \<noteq> ''nan'' \<and> strip (py_str L v) \<noteq> []))"
  let ?ids = "cells (col df ''id'')"
  let ?strs = "map (\<lambda>v. CStr (py_str L v)) ?ids"
  from h have "\<exists>df3. transform_reddit_posts L df = Inr (remove_duplicates df3) \<and>
           ''id'' \<in> set (columns df3) \<and> cells (col df3 ''id'') = ?strs"
    by (intro transform_reddit_posts_ids) blast+
  then obtain df3 where r: "transform_reddit_posts L df = Inr (remove_duplicates df3)"
    and i3: "''id'' \<in> set (columns df3)" and c3: "cells (col df3 ''id'') = ?strs"
    by blast
  have keys: "map py_key ?strs = ?strs" by (simp add: comp_def)
  have "set ?strs = CStr ` py_str L ` set ?ids" by (simp add: image_image)
  moreover have "card (CStr ` py_str L ` set ?ids) = card (py_str L ` set ?ids)"
    by (rule card_image) (simp add: inj_on_def)
  ultimately have 1: "nrows (remove_duplicates df3) = card (py_str L ` set ?ids)"
    using remove_duplicates_count [OF i3] by (simp only: c3 keys)
  have f: "first_occurrences ?strs = first_occurrences (map (py_str L) ?ids)"
  proof -
    have "\<And>i. i < length ?ids \<Longrightarrow>
            ?strs ! i \<in> set (take i ?strs) \<longleftrightarrow> map (py_str L) ?ids ! i \<in> set (take i (map (py_str L) ?ids))"
    proof -
      fix i assume "i < length ?ids"
      then have "?strs ! i = CStr (map (py_str L) ?ids ! i)" by simp
      moreover have "set (take i ?strs) = CStr ` set (take i (map (py_str L) ?ids))"
        by (simp add: take_map image_image)
      ultimately show "?strs ! i \<in> set (take i ?strs)
                         \<longleftrightarrow> map (py_str L) ?ids ! i \<in> set (take i (map (py_str L) ?ids))"
        by (simp only: inj_image_mem_iff [of CStr] inj_def cell.inject simp_thms)
    qed
    then show ?thesis unfolding first_occurrences_def by auto
  qed
  have 2: "cells (col (remove_duplicates df3) ''id'')
             = nths ?strs (first_occurrences (map (py_str L) ?ids))"
    using remove_duplicates_ids [OF i3] by (simp only: c3 keys f)
  have 3: "cells (col df ''id'') = [a, a', b] \<and> py_str L a = py_str L a' \<and>
           py_str L a \<noteq> py_str L b \<longrightarrow>
             nrows (remove_duplicates df3) = 2 \<and>
             cells (col (remove_duplicates df3) ''id'') = [CStr (py_str L a), CStr (py_str L b)]"
  proof
    assume e: "cells (col df ''id'') = [a, a', b] \<and> py_str L a = py_str L a' \<and>
               py_str L a \<noteq> py_str L b"
    then have l: "cells (col df3 ''id'') = [CStr (py_str L a), CStr (py_str L a'), CStr (py_str L b)]"
      using c3 by simp
    from e have "py_str L a = py_str L a'" and "py_str L a \<noteq> py_str L b" by blast+
    then have "py_key (CStr (py_str L a)) = py_key (CStr (py_str L a'))"
      and "py_key (CStr (py_str L a)) \<noteq> py_key (CStr (py_str L b))"
      by simp_all
    with i3 l show "nrows (remove_duplicates df3) = 2 \<and>
             cells (col (remove_duplicates df3) ''id'') = [CStr (py_str L a), CStr (py_str L b)]"
      by (rule remove_duplicates_three)
  qed
  from r 1 2 3 show "\<exists>df'. transform_reddit_posts L df = Inr df' \<and>
             nrows df' = card (py_str L ` set (cells (col df ''id''))) \<and>
             cells (col df' ''id'')
               = nths (map (\<lambda>v. CStr (py_str L v)) (cells (col df ''id'')))
                   (first_occurrences (map (py_str L) (cells (col df ''id'')))) \<and>
             (cells (col df ''id'') = [a, a', b] \<and> py_str L a = py_str L a' \<and>
              py_str L a \<noteq> py_str L b \<longrightarrow>
                nrows df' = 2 \<and> cells (col df' ''id'') = [CStr (py_str L a), CStr (py_str L b)])"
    by blast
qed

text \<open>The frame of the transformer's test of duplicate removal, with the ids
  \<^verbatim>\<open>1, 1, 2\<close>: the stage keeps the rows 0 and 2, and the whole transformation returns
  two rows with the ids \<^verbatim>\<open>1\<close> and \<^verbatim>\<open>2\<close>.\<close>

theorem remove_duplicates_keeps_first_witness:
  "wf_frame duplicated_frame \<and> ''id'' \<in> set (columns duplicated_frame) \<and>
   cells (col duplicated_frame ''id'') = [CStr ''1'', CStr ''1'', CStr ''2''] \<and>
   nrows (remove_duplicates duplicated_frame) = 2 \<and>
   cells (col (remove_duplicates duplicated_frame) ''id'') = [CStr ''1'', CStr ''2''] \<and>
   remove_duplicates (remove_duplicates duplicated_frame) = remove_duplicates duplicated_frame \<and>
   (\<exists>df'. transform_reddit_posts example_runtime duplicated_frame = Inr df' \<and>
          nrows df' = 2 \<and> cells (col df' ''id'') = [CStr ''1'', CStr ''2''])"
proof -
  have w: "wf_frame duplicated_frame"
    by (simp add: wf_frame_def duplicated_frame_def columns_def)
  then have al: "aligned duplicated_frame" by (simp add: wf_frame_def aligned_def)
  have n: "0 < nrows duplicated_frame" by (simp add: duplicated_frame_def)
  have i: "''id'' \<in> set (columns duplicated_frame)"
    by (simp add: duplicated_frame_def columns_def)
  have c: "cells (col duplicated_frame ''id'') = [CStr ''1'', CStr ''1'', CStr ''2'']"
    by (simp add: duplicated_frame_def col_def)
  have t: "''title'' \<in> set (columns duplicated_frame)"
    "cells (col duplicated_frame ''title'') = [CStr ''Title 1'', CStr ''Title 2'', CStr ''Title 3'']"
    by (simp_all add: duplicated_frame_def columns_def col_def)
  have s: "strip ''Title 1'' \<noteq> []" by code_simp
  have x: "''selftext'' \<notin> set (columns duplicated_frame)"
    by (simp add: duplicated_frame_def columns_def)
  from remove_duplicates_keeps_first
         [of duplicated_frame "CStr ''1''" "CStr ''1''" "CStr ''2''" example_runtime]
    w al n i c t s x
  show ?thesis by simp blast
qed

section \<open>Transformer: the boolean columns\<close>

lemma boolean_column_converted:
  assumes b: "name \<in> set boolean_columns" and c: "name \<in> set (columns df)"
  shows "col (convert_types L df) name = astype_bool (col df name)"
proof -
  let ?df1 = "for_columns (astype_str L) string_columns df"
  let ?df2 = "for_columns (to_numeric L) numeric_columns ?df1"
  let ?df3 = "for_columns astype_bool boolean_columns ?df2"
  let ?created = "to_datetime L (col ?df3 ''created_utc'')"
  note b' = b
  from b have ns: "name \<notin> set string_columns" and nn: "name \<notin> set numeric_columns"
    and nd: "name \<noteq> ''created_utc''" "name \<noteq> ''created_date''" "name \<noteq> ''created_hour''"
      "name \<noteq> ''created_day_of_week''"
    by (auto simp: boolean_columns_def string_columns_def numeric_columns_def)
  have d: "distinct boolean_columns" by (simp add: boolean_columns_def)
  have c2: "name \<in> set (columns ?df2)" using c by (simp only: columns_for_columns)
  have "col ?df2 name = col df name"
    by (simp only: for_columns_other [OF nn] for_columns_other [OF ns])
  moreover have "col ?df3 name = astype_bool (col ?df2 name)"
    by (rule for_columns_hit [OF d b' c2])
  ultimately have 3: "col ?df3 name = astype_bool (col df name)" by (simp only:)
  show ?thesis
  proof (cases "''created_utc'' \<in> set (columns ?df3)")
    case False
    have "convert_types L df = ?df3"
      unfolding convert_types_def Let_def using False by (simp only: if_False)
    with 3 show ?thesis by (simp only:)
  next
    case True
    have "convert_types L df
          = set_col (set_col (set_col (set_col ?df3 ''created_utc'' ?created)
                ''created_date'' \<lparr>dtype = ObjectT, cells = map dt_date (cells ?created)\<rparr>)
              ''created_hour'' (numeric_column (map dt_hour (cells ?created))))
            ''created_day_of_week'' \<lparr>dtype = ObjectT, cells = map dt_day_name (cells ?created)\<rparr>"
      unfolding convert_types_def Let_def using True by (simp only: if_True)
    then show ?thesis using nd 3 by (simp only: col_set_col if_False)
  qed
qed

text \<open>
  C10, as the claim states it, fails: a post without a \<^verbatim>\<open>distinguished\<close> value has
  \<^verbatim>\<open>None\<close> there, as the extractor stores it, and \<^verbatim>\<open>astype(bool)\<close> turns \<^verbatim>\<open>None\<close> into
  \<^verbatim>\<open>False\<close>, not into \<^verbatim>\<open>True\<close>.
\<close>

theorem convert_types_boolean_counterexample:
  "cells (col moderated_frame ''distinguished'') = [CNone, CStr ''moderator''] \<and>
   cells (col (convert_types example_runtime moderated_frame) ''distinguished'')
     = [CBool False, CBool True]"
  by code_simp

text \<open>
  C10, amended. The type coercion replaces every value of the columns \<^verbatim>\<open>is_self\<close>,
  \<^verbatim>\<open>over_18\<close>, \<^verbatim>\<open>stickied\<close> and \<^verbatim>\<open>distinguished\<close> by its Python truth value, so these
  columns hold no null afterwards; a missing value that is \<^verbatim>\<open>nan\<close> becomes \<^verbatim>\<open>True\<close>, and
  one that is \<^verbatim>\<open>None\<close> becomes \<^verbatim>\<open>False\<close>.
\<close>

theorem convert_types_boolean:
  assumes "name \<in> set boolean_columns" and "name \<in> set (columns df)"
  shows "col (convert_types L df) name
           = \<lparr>dtype = BoolT, cells = map (\<lambda>v. CBool (py_bool v)) (cells (col df name))\<rparr> \<and>
         \<not> list_ex is_null (cells (col (convert_types L df) name)) \<and>
         py_bool CNaN \<and> \<not> py_bool CNone"
  using boolean_column_converted [OF assms, of L]
  by (simp add: astype_bool_def list_ex_iff image_iff)

theorem convert_types_boolean_witness:
  "''distinguished'' \<in> set boolean_columns \<and> ''distinguished'' \<in> set (columns moderated_frame) \<and>
   col (convert_types example_runtime moderated_frame) ''distinguished''
     = \<lparr>dtype = BoolT, cells = [CBool False, CBool True]\<rparr>"
proof -
  have b: "''distinguished'' \<in> set boolean_columns" by (simp add: boolean_columns_def)
  have c: "''distinguished'' \<in> set (columns moderated_frame)"
    by (simp add: moderated_frame_def columns_def)
  have v: "cells (col moderated_frame ''distinguished'') = [CNone, CStr ''moderator'']"
    by (simp add: moderated_frame_def col_def)
  from convert_types_boolean [OF b c, of example_runtime] v b c
  show ?thesis by simp
qed

section \<open>Transformer: a batch of link posts\<close>

text \<open>
  C5. The stages are not total on what the extraction returns. A link post has the empty
  string as its \<^verbatim>\<open>selftext\<close>. When every post of the batch is one, the cleaning stage
  replaces every \<^verbatim>\<open>selftext\<close> by \<^verbatim>\<open>nan\<close>, which leaves a \<^verbatim>\<open>float64\<close> column; the
  feature stage then asks for its \<^verbatim>\<open>.str\<close> accessor, pandas raises an
  \<^verbatim>\<open>AttributeError\<close>, and \<^verbatim>\<open>transform_reddit_posts\<close> raises its \<^verbatim>\<open>ProcessingException\<close>.
  Here the batch is the one link post that the client lists, as \<^verbatim>\<open>extract_posts_batch\<close>
  returns it, and the run of the pipeline on it fails.
\<close>

theorem transform_reddit_posts_raises:
  "cells (col (fst (extract_posts_batch example_runtime link_client True [''python''] ''day''
                      (Some 10) ''hot'' 1)) ''selftext'') = [CStr []] \<and>
   (case clean_data (convert_types example_runtime
                       (fst (extract_posts_batch example_runtime link_client True [''python'']
                               ''day'' (Some 10) ''hot'' 1))) of
      Inl e \<Rightarrow> False
    | Inr df \<Rightarrow> col df ''selftext'' = \<lparr>dtype = Float64T, cells = [CNaN]\<rparr>) \<and>
   transform_reddit_posts example_runtime
     (fst (extract_posts_batch example_runtime link_client True [''python''] ''day''
             (Some 10) ''hot'' 1))
     = Inl (ProcessingException
              ''Data transformation failed: Can only use .str accessor with string values!'') \<and>
   fst (run example_runtime example_environment link_client True [''python''] ''day'' (Some 10)
          ''hot'' None True True [])
     = Inl (RedditPipelineException
              (''Pipeline execution failed: Data transformation failed: ''
                 @ ''Can only use .str accessor with string values!''))"
  by code_simp

end
